theory Spec2Isabelle
  imports Complex_Main "HOL-Library.Sublist" "HOL-Library.Multiset" "HOL-Library.Log_Nat"
begin

section \<open>The records gateway of \<^verbatim>\<open>backend/database/crud.py\<close>\<close>

text \<open>
  The module is a set of functions over a SQLAlchemy session. The session is modelled as
  the content of the tables it reaches: every table is the list of its rows, in the order
  in which the store returns them to a query without \<^verbatim>\<open>ORDER BY\<close>. A function that
  writes takes the database and returns the database after its commit, next to its
  result; a function that raises returns the error in the left summand, next to the
  database as the raise leaves it.

  The mapped classes (\<^verbatim>\<open>models.py\<close>) and the request schemas are not among the sources;
  the columns are those the functions read and write, with the types of the data model:
  integer keys, booleans, strings, and instants for the \<^verbatim>\<open>datetime\<close> columns. The
  teachers table and the description and the difficulty of a problem play no part in the
  functions below and are left out. An instant
  is an integer on some fixed time line; only its order and equality are used. A
  \<^verbatim>\<open>datetime\<close> object is never falsy in Python, so a test \<^verbatim>\<open>if timestamp\<close> on an
  optional instant is the test for \<^verbatim>\<open>None\<close>.
\<close>

type_synonym datetime = int

record class_row =
  Class_id :: int
  Class_name :: string
  Class_description :: string
  Class_created_at :: datetime
  Class_teacher_id :: int

record student_row =
  Student_id :: int
  Student_first_name :: string
  Student_last_name :: string
  Student_class_id :: int
  Student_is_deleted :: bool
  Student_deleted_at :: "datetime option"
  Student_last_interaction_update_timestamp :: datetime

record skill_row =
  Skill_id :: int
  Skill_internal_idx :: int
  Skill_original_skill_id :: string
  Skill_name :: string

record problem_row =
  Problem_id :: int
  Problem_internal_idx :: int
  Problem_original_problem_id :: string
  Problem_skill_id :: int

record interaction_row =
  Interaction_id :: int
  Interaction_student_id :: int
  Interaction_problem_id :: int
  Interaction_skill_id :: int
  Interaction_is_correct :: bool
  Interaction_timestamp :: datetime

record database =
  classes :: "class_row list"
  students :: "student_row list"
  skills :: "skill_row list"
  problems :: "problem_row list"
  interactions :: "interaction_row list"

text \<open>Every \<^verbatim>\<open>raise\<close> statement of the module raises \<^verbatim>\<open>ValueError\<close> with a message.\<close>

datatype error = ValueError string

subsection \<open>Formatting an integer in an f-string\<close>

definition digit_char :: "nat \<Rightarrow> char" where
  "digit_char d = char_of (48 + d)"

fun str_nat :: "nat \<Rightarrow> string" where
  "str_nat n = (if n < 10 then [digit_char n] else str_nat (n div 10) @ [digit_char (n mod 10)])"

declare str_nat.simps [simp del]

definition str_int :: "int \<Rightarrow> string" where
  "str_int i = (if i < 0 then CHR ''-'' # str_nat (nat (- i)) else str_nat (nat i))"

text \<open>Reading a decimal numeral back: the value of a string of digits.\<close>

definition digit_val :: "char \<Rightarrow> nat" where
  "digit_val c = of_char c - 48"

definition decimal_value :: "string \<Rightarrow> nat" where
  "decimal_value ds = foldl (\<lambda>a c. 10 * a + digit_val c) 0 ds"

text \<open>
  The messages are German; \<^verbatim>\<open>o\<close> and \<^verbatim>\<open>u\<close> with diaeresis are written as the two bytes of
  their UTF-8 encoding.
\<close>

definition o_umlaut :: string where
  "o_umlaut = [CHR 0xC3, CHR 0xB6]"

definition u_umlaut :: string where
  "u_umlaut = [CHR 0xC3, CHR 0xBC]"

subsection \<open>Classes\<close>

text \<open>\<^verbatim>\<open>query.filter(...).first()\<close>: the first row that satisfies the filter, or \<^verbatim>\<open>None\<close>.\<close>

definition get_class :: "database \<Rightarrow> int \<Rightarrow> class_row option" where
  "get_class db class_id = find (\<lambda>c. Class_id c = class_id) (classes db)"

text \<open>
  \<^verbatim>\<open>db.delete(obj)\<close> followed by the commit deletes the row with the primary key of the
  object. The function issues deletes for student rows and for the class row only; what
  the mapping may attach to a delete is not in the sources, and the other tables are left
  as they are.
\<close>

definition db_delete_student :: "student_row \<Rightarrow> database \<Rightarrow> database" where
  "db_delete_student s db =
     db\<lparr>students := filter (\<lambda>r. Student_id r \<noteq> Student_id s) (students db)\<rparr>"

definition db_delete_class :: "class_row \<Rightarrow> database \<Rightarrow> database" where
  "db_delete_class c db =
     db\<lparr>classes := filter (\<lambda>r. Class_id r \<noteq> Class_id c) (classes db)\<rparr>"

definition delete_class_message :: "nat \<Rightarrow> string" where
  "delete_class_message active_student_count =
     ''Klasse kann nicht gel'' @ o_umlaut @ ''scht werden. Bitte erst die ''
       @ str_nat active_student_count @ '' Sch'' @ u_umlaut @ ''ler l'' @ o_umlaut @ ''schen.''"

definition delete_class :: "database \<Rightarrow> int \<Rightarrow> (error + class_row option) \<times> database" where
  "delete_class db class_id =
     (case get_class db class_id of
        None \<Rightarrow> (Inr None, db)
      | Some db_class \<Rightarrow>
          let active_student_count =
                length (filter (\<lambda>s. Student_class_id s = class_id \<and> Student_is_deleted s = False)
                          (students db))
          in if active_student_count > 0
             then (Inl (ValueError (delete_class_message active_student_count)), db)
             else
               let deleted_students =
                     filter (\<lambda>s. Student_class_id s = class_id \<and> Student_is_deleted s = True)
                       (students db);
                   db1 = fold db_delete_student deleted_students db;
                   db2 = db_delete_class db_class db1
               in (Inr (Some db_class), db2))"

subsection \<open>Students\<close>

definition get_student :: "database \<Rightarrow> int \<Rightarrow> student_row option" where
  "get_student db student_id = find (\<lambda>s. Student_id s = student_id) (students db)"

text \<open>
  \<^verbatim>\<open>hasattr(models.Student, 'is_deleted')\<close> holds: \<^verbatim>\<open>delete_student\<close> and
  \<^verbatim>\<open>delete_class\<close> use the column. \<^verbatim>\<open>skip\<close> and \<^verbatim>\<open>limit\<close> are row counts.
\<close>

definition get_students_by_class :: "database \<Rightarrow> int \<Rightarrow> nat \<Rightarrow> nat \<Rightarrow> student_row list" where
  "get_students_by_class db class_id skip limit =
     (let query = filter (\<lambda>s. Student_class_id s = class_id) (students db);
          query = filter (\<lambda>s. Student_is_deleted s = False) query
      in take limit (drop skip query))"

text \<open>
  Changing attributes of a loaded row and committing updates the row with that primary
  key; \<^verbatim>\<open>db.refresh\<close> reads it back.
\<close>

definition db_update_student :: "int \<Rightarrow> (student_row \<Rightarrow> student_row) \<Rightarrow> database \<Rightarrow> database" where
  "db_update_student student_id f db =
     db\<lparr>students := map (\<lambda>r. if Student_id r = student_id then f r else r) (students db)\<rparr>"

text \<open>\<^verbatim>\<open>utcnow\<close> is the reading of the clock, \<^verbatim>\<open>datetime.utcnow()\<close>, at the call.\<close>

definition update_student_last_interaction_timestamp ::
  "datetime \<Rightarrow> database \<Rightarrow> int \<Rightarrow> datetime option \<Rightarrow> student_row option \<times> database" where
  "update_student_last_interaction_timestamp utcnow db student_id timestamp =
     (case get_student db student_id of
        None \<Rightarrow> (None, db)
      | Some db_student \<Rightarrow>
          let upd = (\<lambda>r. r\<lparr>Student_last_interaction_update_timestamp :=
                             (case timestamp of Some t \<Rightarrow> t | None \<Rightarrow> utcnow)\<rparr>)
          in (Some (upd db_student), db_update_student (Student_id db_student) upd db))"

definition delete_student :: "datetime \<Rightarrow> database \<Rightarrow> int \<Rightarrow> student_row option \<times> database" where
  "delete_student utcnow db student_id =
     (case get_student db student_id of
        None \<Rightarrow> (None, db)
      | Some db_student \<Rightarrow>
          let upd = (\<lambda>r. r\<lparr>Student_is_deleted := True, Student_deleted_at := Some utcnow\<rparr>)
          in (Some (upd db_student), db_update_student (Student_id db_student) upd db))"

text \<open>
  A Python string is held as the bytes of its UTF-8 encoding; its characters are the
  code points. \<^verbatim>\<open>characters\<close> splits the bytes into the characters: a byte of a
  multi-byte sequence is joined to the continuation bytes that follow it, an ASCII byte
  stands alone.
\<close>

definition multibyte :: "char \<Rightarrow> bool" where
  "multibyte c = (128 \<le> (of_char c :: nat))"

definition continuation :: "char \<Rightarrow> bool" where
  "continuation c = (128 \<le> (of_char c :: nat) \<and> (of_char c :: nat) < 192)"

fun characters :: "string \<Rightarrow> string list" where
  "characters [] = []"
| "characters (c # cs) =
     (case characters cs of
        [] \<Rightarrow> [[c]]
      | g # gs \<Rightarrow> if multibyte c \<and> continuation (hd g) then (c # g) # gs else [c] # g # gs)"

text \<open>
  \<^verbatim>\<open>column.ilike(pattern)\<close> is the \<^verbatim>\<open>LIKE\<close> of SQL on the lower-cased operands, without an
  \<^verbatim>\<open>ESCAPE\<close> clause: \<^verbatim>\<open>%\<close> in the pattern stands for any sequence of characters,
  \<^verbatim>\<open>_\<close> for any one character, every other character for itself. Lower-casing maps the
  letters \<^verbatim>\<open>A\<close> to \<^verbatim>\<open>Z\<close> to \<^verbatim>\<open>a\<close> to \<^verbatim>\<open>z\<close> and leaves every other byte, so it keeps
  the characters apart as they were.
\<close>

definition lower_char :: "char \<Rightarrow> char" where
  "lower_char c =
     (let n = (of_char c :: nat) in if 65 \<le> n \<and> n \<le> 90 then char_of (n + 32) else c)"

fun like_match :: "string list \<Rightarrow> string list \<Rightarrow> bool" where
  "like_match [] s = (s = [])"
| "like_match (p # ps) s =
     (if p = ''%''
      then like_match ps s \<or> (case s of [] \<Rightarrow> False | c # t \<Rightarrow> like_match (p # ps) t)
      else (case s of [] \<Rightarrow> False | c # t \<Rightarrow> (p = ''_'' \<or> p = c) \<and> like_match ps t))"

declare like_match.simps [simp del]

definition ilike :: "string \<Rightarrow> string \<Rightarrow> bool" where
  "ilike column pattern =
     like_match (characters (map lower_char pattern)) (characters (map lower_char column))"

definition search_students_in_class ::
  "database \<Rightarrow> int \<Rightarrow> string \<Rightarrow> nat \<Rightarrow> nat \<Rightarrow> student_row list" where
  "search_students_in_class db class_id query skip limit =
     (let search_query = ''%'' @ query @ ''%''
      in take limit (drop skip
           (filter (\<lambda>s. Student_class_id s = class_id \<and>
                         (ilike (Student_first_name s) search_query \<or>
                          ilike (Student_last_name s) search_query))
              (students db))))"




subsection \<open>Skills and problems\<close>

definition get_problem :: "database \<Rightarrow> int \<Rightarrow> problem_row option" where
  "get_problem db problem_id = find (\<lambda>p. Problem_id p = problem_id) (problems db)"

definition get_problem_by_original_id :: "database \<Rightarrow> string \<Rightarrow> problem_row option" where
  "get_problem_by_original_id db original_problem_id =
     find (\<lambda>p. Problem_original_problem_id p = original_problem_id) (problems db)"

definition get_skill_by_original_id :: "database \<Rightarrow> string \<Rightarrow> skill_row option" where
  "get_skill_by_original_id db original_skill_id =
     find (\<lambda>k. Skill_original_skill_id k = original_skill_id) (skills db)"

subsection \<open>Interactions\<close>

text \<open>
  The two request schemas. Both have the fields \<^verbatim>\<open>is_correct\<close> and \<^verbatim>\<open>timestamp\<close>; those
  of the CSV row carry the prefix \<^verbatim>\<open>csv_\<close> here.
\<close>

record InteractionCreate =
  problem_db_id :: int
  skill_db_id :: int
  is_correct :: bool
  timestamp :: datetime

record InteractionCSVRow =
  problem_original_id :: string
  skill_original_id :: string
  csv_is_correct :: bool
  csv_timestamp :: datetime

text \<open>
  The optional arguments: \<^verbatim>\<open>if limit\<close> and \<^verbatim>\<open>if skill_id\<close> are Python truth tests, false
  on \<^verbatim>\<open>None\<close> and on \<^verbatim>\<open>0\<close>; \<^verbatim>\<open>if start_date\<close> and \<^verbatim>\<open>if end_date\<close> are false on
  \<^verbatim>\<open>None\<close> only. \<^verbatim>\<open>ORDER BY\<close> is modelled by a stable sort, one of the orders the
  store may return for equal timestamps. The eager loading of \<^verbatim>\<open>problem\<close> and \<^verbatim>\<open>skill\<close>
  joins along many-to-one references and changes neither the rows nor their order.
\<close>

definition get_student_interactions ::
  "database \<Rightarrow> int \<Rightarrow> nat option \<Rightarrow> bool \<Rightarrow> datetime option \<Rightarrow> datetime option \<Rightarrow> int option
     \<Rightarrow> interaction_row list" where
  "get_student_interactions db student_id limit sort_desc start_date end_date skill_id =
     (let query = filter (\<lambda>i. Interaction_student_id i = student_id) (interactions db);
          query = (case start_date of
                     Some d \<Rightarrow> filter (\<lambda>i. Interaction_timestamp i \<ge> d) query
                   | None \<Rightarrow> query);
          query = (case end_date of
                     Some d \<Rightarrow> filter (\<lambda>i. Interaction_timestamp i \<le> d) query
                   | None \<Rightarrow> query);
          query = (case skill_id of
                     Some k \<Rightarrow> if k \<noteq> 0 then filter (\<lambda>i. Interaction_skill_id i = k) query
                               else query
                   | None \<Rightarrow> query);
          query = (if sort_desc
                   then sort_key (\<lambda>i. - Interaction_timestamp i) query
                   else sort_key Interaction_timestamp query);
          query = (case limit of
                     Some l \<Rightarrow> if l \<noteq> 0 then take l query else query
                   | None \<Rightarrow> query)
      in query)"

text \<open>
  The store assigns the primary key of an inserted row; here the next integer after the
  keys in use. The insert is not checked against the students table: the foreign keys
  are the store's business. \<^verbatim>\<open>create_interaction\<close> hands the timestamp of the
  interaction to \<^verbatim>\<open>update_student_last_interaction_timestamp\<close>, which reads the clock
  only when it is given none.
\<close>

definition next_interaction_id :: "database \<Rightarrow> int" where
  "next_interaction_id db = fold max (map Interaction_id (interactions db)) 0 + 1"

definition problem_not_found_message :: "int \<Rightarrow> string" where
  "problem_not_found_message pid =
     ''Problem mit ID '' @ str_int pid @ '' nicht gefunden''"

definition skill_mismatch_message :: "int \<Rightarrow> int \<Rightarrow> string" where
  "skill_mismatch_message pid kid =
     ''Problem '' @ str_int pid @ '' geh'' @ o_umlaut @ ''rt nicht zu Skill '' @ str_int kid"

definition create_interaction ::
  "datetime \<Rightarrow> database \<Rightarrow> InteractionCreate \<Rightarrow> int \<Rightarrow> (error + interaction_row) \<times> database" where
  "create_interaction utcnow db interaction student_id =
     (case get_problem db (problem_db_id interaction) of
        None \<Rightarrow> (Inl (ValueError (problem_not_found_message (problem_db_id interaction))), db)
      | Some db_problem \<Rightarrow>
          if Problem_skill_id db_problem \<noteq> skill_db_id interaction
          then (Inl (ValueError (skill_mismatch_message (problem_db_id interaction)
                                   (skill_db_id interaction))), db)
          else
            let db_interaction =
                  \<lparr>Interaction_id = next_interaction_id db,
                   Interaction_student_id = student_id,
                   Interaction_problem_id = problem_db_id interaction,
                   Interaction_skill_id = skill_db_id interaction,
                   Interaction_is_correct = is_correct interaction,
                   Interaction_timestamp = timestamp interaction\<rparr>;
                db1 = db\<lparr>interactions := interactions db @ [db_interaction]\<rparr>;
                db2 = snd (update_student_last_interaction_timestamp utcnow db1 student_id
                             (Some (timestamp interaction)))
            in (Inr db_interaction, db2))"

definition create_interaction_from_csv ::
  "datetime \<Rightarrow> database \<Rightarrow> InteractionCSVRow \<Rightarrow> int
     \<Rightarrow> (error + interaction_row option) \<times> database" where
  "create_interaction_from_csv utcnow db csv_row student_id =
     (case get_problem_by_original_id db (problem_original_id csv_row) of
        None \<Rightarrow> (Inr None, db)
      | Some db_problem \<Rightarrow>
          (case get_skill_by_original_id db (skill_original_id csv_row) of
             None \<Rightarrow> (Inr None, db)
           | Some db_skill \<Rightarrow>
               let interaction_data =
                     \<lparr>problem_db_id = Problem_id db_problem,
                      skill_db_id = Skill_id db_skill,
                      is_correct = csv_is_correct csv_row,
                      timestamp = csv_timestamp csv_row\<rparr>
               in (case create_interaction utcnow db interaction_data student_id of
                     (Inl (ValueError msg), db') \<Rightarrow> (Inr None, db')
                   | (Inr db_interaction, db') \<Rightarrow> (Inr (Some db_interaction), db'))))"

subsection \<open>Python numbers and dictionary values\<close>

text \<open>
  The two aggregation functions return dictionaries from strings to integers, floats,
  strings and \<^verbatim>\<open>None\<close>; a dictionary is the list of its items in insertion order.
  \<^verbatim>\<open>IsoFormat t\<close> stands for the string \<^verbatim>\<open>t.isoformat()\<close> of an instant.

  A float is the rational number it denotes. \<^verbatim>\<open>to_double\<close> rounds a rational to the
  nearest number with a 53-bit significand, ties to the even significand, as IEEE 754
  binary64 arithmetic does in its normal range (the quotients and products below are 0
  or lie between \<open>2\<^sup>-\<^sup>6\<^sup>3\<close> and \<open>100\<close>, far from overflow and from the subnormal
  numbers). Python's \<^verbatim>\<open>int / int\<close> and \<^verbatim>\<open>float * float\<close> are correctly rounded;
  \<^verbatim>\<open>round(x, n)\<close> on a float rounds the exact value of \<^verbatim>\<open>x\<close> to \<^verbatim>\<open>n\<close> decimals, ties to
  even, and returns the double nearest to that decimal; on an \<^verbatim>\<open>int\<close> with \<open>n \<ge> 0\<close>
  it returns the \<^verbatim>\<open>int\<close>.
\<close>

datatype pynum = PyInt int | PyFloat rat

datatype pyval = Num pynum | Str string | IsoFormat datetime | NoneValue

definition pow2 :: "int \<Rightarrow> rat" where
  "pow2 e = (if 0 \<le> e then 2 ^ nat e else 1 / 2 ^ nat (- e))"

text \<open>The exponent of a positive rational \<open>q\<close>: the \<open>e\<close> with \<open>2\<^sup>e \<le> q < 2\<^sup>e\<^sup>+\<^sup>1\<close>.\<close>

definition floor_log2 :: "rat \<Rightarrow> int" where
  "floor_log2 q =
     (let (a, b) = quotient_of q;
          e = bitlen a - bitlen b
      in if pow2 e \<le> q then e else e - 1)"

definition round_half_even :: "rat \<Rightarrow> int" where
  "round_half_even q =
     (let f = \<lfloor>q\<rfloor>; r = q - of_int f
      in if r < 1 / 2 then f else if 1 / 2 < r then f + 1 else if even f then f else f + 1)"

definition to_double :: "rat \<Rightarrow> rat" where
  "to_double q =
     (if q = 0 then 0
      else let ulp = pow2 (floor_log2 \<bar>q\<bar> - 52)
           in of_int (round_half_even (q / ulp)) * ulp)"

definition int_truediv :: "int \<Rightarrow> int \<Rightarrow> rat" where
  "int_truediv a b = to_double (of_int a / of_int b)"

definition float_mul :: "rat \<Rightarrow> rat \<Rightarrow> rat" where
  "float_mul x y = to_double (x * y)"

fun py_round :: "pynum \<Rightarrow> nat \<Rightarrow> pynum" where
  "py_round (PyInt i) ndigits = PyInt i"
| "py_round (PyFloat x) ndigits =
     PyFloat (to_double (of_int (round_half_even (x * 10 ^ ndigits)) / 10 ^ ndigits))"

text \<open>
  What the float operations are measured against, stated without the functions above.
  \<open>k\<close> is the integer nearest to \<open>q\<close>, the even one of the two when \<open>q\<close> lies halfway.
  \<open>d\<close> is the binary64 number nearest to \<open>q\<close>: with \<open>e\<close> the binary exponent of \<open>q\<close>,
  \<open>d\<close> is the multiple of \<open>2\<^sup>e\<^sup>-\<^sup>5\<^sup>2\<close> by the integer nearest to \<open>q / 2\<^sup>e\<^sup>-\<^sup>5\<^sup>2\<close>. \<open>r\<close>
  is \<open>x\<close> rounded to \<open>n\<close> decimals: the multiple of \<open>10\<^sup>-\<^sup>n\<close> by the integer nearest to
  \<open>10\<^sup>n x\<close>.
\<close>

definition nearest_integer_even :: "rat \<Rightarrow> int \<Rightarrow> bool" where
  "nearest_integer_even q k \<longleftrightarrow>
     \<bar>of_int k - q\<bar> \<le> 1 / 2 \<and> (\<bar>of_int k - q\<bar> = 1 / 2 \<longrightarrow> even k)"

definition binary64_nearest :: "rat \<Rightarrow> rat \<Rightarrow> bool" where
  "binary64_nearest q d \<longleftrightarrow>
     (q = 0 \<and> d = 0) \<or>
     (\<exists>e m. 2 powi e \<le> \<bar>q\<bar> \<and> \<bar>q\<bar> < 2 powi (e + 1) \<and>
            nearest_integer_even (q / 2 powi (e - 52)) m \<and> d = of_int m * 2 powi (e - 52))"

definition decimal_rounded :: "rat \<Rightarrow> nat \<Rightarrow> rat \<Rightarrow> bool" where
  "decimal_rounded x n r \<longleftrightarrow>
     (\<exists>k. nearest_integer_even (x * 10 ^ n) k \<and> r = of_int k / 10 ^ n)"

subsection \<open>Aggregation\<close>

text \<open>
  \<^verbatim>\<open>func.max\<close> over no rows is \<^verbatim>\<open>NULL\<close>. The division is guarded by \<^verbatim>\<open>total > 0\<close>. In
  \<^verbatim>\<open>correct / total * 100\<close> the integer \<open>100\<close> is converted to the float \<open>100.0\<close>,
  exactly.
\<close>

definition get_student_statistics :: "database \<Rightarrow> int \<Rightarrow> (string \<times> pyval) list" where
  "get_student_statistics db student_id =
     (case get_student db student_id of
        None \<Rightarrow> []
      | Some student \<Rightarrow>
          let total = int (length (filter (\<lambda>i. Interaction_student_id i = student_id)
                                     (interactions db)));
              correct = int (length (filter (\<lambda>i. Interaction_student_id i = student_id \<and>
                                                   Interaction_is_correct i = True)
                                       (interactions db)));
              skills_practiced =
                int (length (remdups (map Interaction_skill_id
                       (filter (\<lambda>i. Interaction_student_id i = student_id) (interactions db)))));
              last_activity =
                (case map Interaction_timestamp
                        (filter (\<lambda>i. Interaction_student_id i = student_id) (interactions db)) of
                   [] \<Rightarrow> None
                 | t # ts \<Rightarrow> Some (fold max ts t));
              problems_attempted =
                int (length (remdups (map Interaction_problem_id
                       (filter (\<lambda>i. Interaction_student_id i = student_id) (interactions db)))))
          in [(''total_interactions'', Num (PyInt total)),
              (''correct_interactions'', Num (PyInt correct)),
              (''incorrect_interactions'', Num (PyInt (total - correct))),
              (''accuracy'',
                 Num (py_round (if total > 0
                                then PyFloat (float_mul (int_truediv correct total) 100)
                                else PyInt 0) 2)),
              (''skills_practiced'', Num (PyInt skills_practiced)),
              (''problems_attempted'', Num (PyInt problems_attempted)),
              (''last_activity'',
                 (case last_activity of Some t \<Rightarrow> IsoFormat t | None \<Rightarrow> NoneValue)),
              (''activity_status'',
                 Str (case last_activity of Some t \<Rightarrow> ''active'' | None \<Rightarrow> ''no_activity''))])"

text \<open>
  The subquery groups the active students by class and counts each group; the outer
  join looks the class up in it, and \<^verbatim>\<open>coalesce\<close> turns a class without a group into
  the count 0.
\<close>

definition student_count_subquery :: "database \<Rightarrow> (int \<times> nat) list" where
  "student_count_subquery db =
     (let active = filter (\<lambda>s. Student_is_deleted s = False) (students db)
      in map (\<lambda>c. (c, length (filter (\<lambda>s. Student_class_id s = c) active)))
           (remdups (map Student_class_id active)))"

definition get_classes_for_dashboard :: "database \<Rightarrow> int \<Rightarrow> nat \<Rightarrow> (string \<times> pyval) list list" where
  "get_classes_for_dashboard db teacher_id limit =
     (let query_result =
            map (\<lambda>c. (Class_id c, Class_name c,
                       (case map_of (student_count_subquery db) (Class_id c) of
                          Some n \<Rightarrow> int n
                        | None \<Rightarrow> 0)))
              (take limit
                 (sort_key (\<lambda>c. - Class_created_at c)
                    (filter (\<lambda>c. Class_teacher_id c = teacher_id) (classes db))))
      in map (\<lambda>(row_id, row_name, row_student_count).
                [(''id'', Num (PyInt row_id)),
                 (''name'', Str row_name),
                 (''student_count'', Num (PyInt row_student_count))])
           query_result)"

subsection \<open>A small database\<close>

text \<open>
  Two teachers, four classes, four students (one active, three soft-deleted), two skills
  with one problem each and three interactions of the first student: the state on which
  the theorems below are put to work.
\<close>

definition demo_db :: database where
  "demo_db =
     \<lparr>classes =
        [\<lparr>Class_id = 1, Class_name = ''7a'', Class_description = ''Mathe'',
          Class_created_at = 100, Class_teacher_id = 1\<rparr>,
         \<lparr>Class_id = 2, Class_name = ''8b'', Class_description = ''Mathe'',
          Class_created_at = 300, Class_teacher_id = 1\<rparr>,
         \<lparr>Class_id = 3, Class_name = ''9c'', Class_description = ''Physik'',
          Class_created_at = 200, Class_teacher_id = 1\<rparr>,
         \<lparr>Class_id = 4, Class_name = ''5a'', Class_description = ''Mathe'',
          Class_created_at = 250, Class_teacher_id = 2\<rparr>],
      students =
        [\<lparr>Student_id = 1, Student_first_name = ''Anna'', Student_last_name = ''Schmidt'',
          Student_class_id = 1, Student_is_deleted = False, Student_deleted_at = None,
          Student_last_interaction_update_timestamp = 10\<rparr>,
         \<lparr>Student_id = 2, Student_first_name = ''Ben'', Student_last_name = ''Hanke'',
          Student_class_id = 1, Student_is_deleted = True, Student_deleted_at = Some 20,
          Student_last_interaction_update_timestamp = 10\<rparr>,
         \<lparr>Student_id = 3, Student_first_name = ''Hanna'', Student_last_name = ''Kurz'',
          Student_class_id = 2, Student_is_deleted = True, Student_deleted_at = Some 30,
          Student_last_interaction_update_timestamp = 10\<rparr>,
         \<lparr>Student_id = 4, Student_first_name = ''Jan'', Student_last_name = ''Maier'',
          Student_class_id = 2, Student_is_deleted = True, Student_deleted_at = Some 40,
          Student_last_interaction_update_timestamp = 10\<rparr>],
      skills =
        [\<lparr>Skill_id = 1, Skill_internal_idx = 0, Skill_original_skill_id = ''S10'',
          Skill_name = ''Addition''\<rparr>,
         \<lparr>Skill_id = 2, Skill_internal_idx = 1, Skill_original_skill_id = ''S20'',
          Skill_name = ''Division''\<rparr>],
      problems =
        [\<lparr>Problem_id = 1, Problem_internal_idx = 0, Problem_original_problem_id = ''P1'',
          Problem_skill_id = 1\<rparr>,
         \<lparr>Problem_id = 2, Problem_internal_idx = 1, Problem_original_problem_id = ''P2'',
          Problem_skill_id = 2\<rparr>],
      interactions =
        [\<lparr>Interaction_id = 1, Interaction_student_id = 1, Interaction_problem_id = 1,
          Interaction_skill_id = 1, Interaction_is_correct = True, Interaction_timestamp = 5\<rparr>,
         \<lparr>Interaction_id = 2, Interaction_student_id = 1, Interaction_problem_id = 2,
          Interaction_skill_id = 2, Interaction_is_correct = False, Interaction_timestamp = 9\<rparr>,
         \<lparr>Interaction_id = 3, Interaction_student_id = 1, Interaction_problem_id = 1,
          Interaction_skill_id = 1, Interaction_is_correct = True, Interaction_timestamp = 7\<rparr>]\<rparr>"

text \<open>The row that recording an answer of student 1 to problem 2 at instant 42 inserts.\<close>

definition demo_interaction :: interaction_row where
  "demo_interaction =
     \<lparr>Interaction_id = 4, Interaction_student_id = 1, Interaction_problem_id = 2,
      Interaction_skill_id = 2, Interaction_is_correct = True, Interaction_timestamp = 42\<rparr>"

text \<open>The same database with ten answers of student 1, seven of them correct.\<close>

definition answer :: "int \<Rightarrow> bool \<Rightarrow> interaction_row" where
  "answer n ok =
     \<lparr>Interaction_id = n, Interaction_student_id = 1, Interaction_problem_id = 1,
      Interaction_skill_id = 1, Interaction_is_correct = ok, Interaction_timestamp = 100 + n\<rparr>"

definition stats_db :: database where
  "stats_db =
     demo_db\<lparr>interactions :=
       [answer 1 True, answer 2 True, answer 3 False, answer 4 True, answer 5 True,
        answer 6 False, answer 7 True, answer 8 True, answer 9 False, answer 10 True]\<rparr>"

section \<open>Properties\<close>

subsection \<open>Lookups\<close>

lemma find_map_update:
  "find (\<lambda>s. Student_id s = sid) xs = Some s \<Longrightarrow> (\<And>r. Student_id (f r) = Student_id r) \<Longrightarrow>
   find (\<lambda>s. Student_id s = sid) (map (\<lambda>r. if Student_id r = sid then f r else r) xs) = Some (f s)"
  by (induction xs) (auto split: if_splits)

lemma get_student_id: "get_student db sid = Some s \<Longrightarrow> Student_id s = sid"
  by (auto simp: get_student_def find_Some_iff)

lemma get_student_update:
  assumes "get_student db sid = Some s" and "\<And>r. Student_id (f r) = Student_id r"
  shows "get_student (db_update_student sid f db) sid = Some (f s)"
  using assms by (simp add: get_student_def db_update_student_def find_map_update)

subsection \<open>Decimal numerals\<close>

lemma digit_val_char: "k < 10 \<Longrightarrow> digit_val (digit_char k) = k"
  by (simp add: digit_val_def digit_char_def)

lemma str_nat_value: "decimal_value (str_nat n) = n"
  unfolding decimal_value_def
proof (induction n rule: str_nat.induct)
  case (1 n)
  show ?case
  proof (cases "n < 10")
    case True
    then show ?thesis by (subst str_nat.simps) (simp add: digit_val_char)
  next
    case False
    then show ?thesis using 1 by (subst str_nat.simps) (simp add: digit_val_char)
  qed
qed


subsection \<open>Deleting a class\<close>

lemma students_fold_delete:
  "students (fold db_delete_student ds db) =
     filter (\<lambda>r. Student_id r \<notin> Student_id ` set ds) (students db)"
proof (induction ds arbitrary: db)
  case Nil
  then show ?case by simp
next
  case (Cons d ds)
  have "students (fold db_delete_student ds (db_delete_student d db)) =
          filter (\<lambda>r. Student_id r \<notin> Student_id ` set ds) (students (db_delete_student d db))"
    by (rule Cons.IH)
  also have "\<dots> = filter (\<lambda>r. Student_id r \<notin> Student_id ` set (d # ds)) (students db)"
    by (simp add: db_delete_student_def conj_commute)
  finally show ?case by simp
qed

lemma fold_delete_others:
  "classes (fold db_delete_student ds db) = classes db"
  "skills (fold db_delete_student ds db) = skills db"
  "problems (fold db_delete_student ds db) = problems db"
  "interactions (fold db_delete_student ds db) = interactions db"
  by (induction ds arbitrary: db) (simp_all add: db_delete_student_def)

lemma find_filter_None: "find (\<lambda>c. f c = k) (filter (\<lambda>r. f r \<noteq> k) xs) = None"
  by (induction xs) auto

lemma get_class_id: "get_class db cid = Some c \<Longrightarrow> Class_id c = cid"
  by (auto simp: get_class_def find_Some_iff)

text \<open>The state after a class deletion that goes through.\<close>

lemma delete_class_state:
  assumes "get_class db cid = Some c"
    and "filter (\<lambda>s. Student_class_id s = cid \<and> \<not> Student_is_deleted s) (students db) = []"
  shows "delete_class db cid =
     (Inr (Some c),
      db\<lparr>classes := filter (\<lambda>r. Class_id r \<noteq> cid) (classes db),
         students := filter (\<lambda>r. Student_id r \<notin> Student_id `
                       {s \<in> set (students db). Student_class_id s = cid \<and> Student_is_deleted s})
                     (students db)\<rparr>)"
proof -
  let ?ds = "filter (\<lambda>s. Student_class_id s = cid \<and> Student_is_deleted s = True) (students db)"
  have "fold db_delete_student ?ds db =
          db\<lparr>students := filter (\<lambda>r. Student_id r \<notin> Student_id ` set ?ds) (students db)\<rparr>"
    by (rule database.equality) (simp_all add: students_fold_delete fold_delete_others)
  moreover have "set ?ds = {s \<in> set (students db). Student_class_id s = cid \<and> Student_is_deleted s}"
    by auto
  ultimately show ?thesis
    using assms get_class_id[OF assms(1)]
    by (simp add: delete_class_def Let_def db_delete_class_def)
qed

text \<open>
  C1. When the class exists and \<open>n \<ge> 1\<close> of its students are active (not soft-deleted),
  \<^verbatim>\<open>delete_class\<close> raises \<^verbatim>\<open>ValueError\<close>; the message contains the decimal numeral of
  \<open>n\<close>, and the database after the call is the database before it: classes, students and
  every other table.
\<close>

theorem delete_class_active_students:
  assumes "get_class db cid = Some c"
    and "n = length (filter (\<lambda>s. Student_class_id s = cid \<and> \<not> Student_is_deleted s) (students db))"
    and "0 < n"
  shows "delete_class db cid = (Inl (ValueError (delete_class_message n)), db) \<and>
         sublist (str_nat n) (delete_class_message n) \<and>
         decimal_value (str_nat n) = n"
proof -
  have "delete_class db cid = (Inl (ValueError (delete_class_message n)), db)"
    using assms by (simp add: delete_class_def Let_def)
  moreover have "sublist (str_nat n) (delete_class_message n)"
    unfolding delete_class_message_def sublist_def by (metis append.assoc)
  ultimately show ?thesis by (simp add: str_nat_value)
qed

theorem delete_class_active_students_witness:
  "get_class demo_db 1 = Some (hd (classes demo_db)) \<and>
   length (filter (\<lambda>s. Student_class_id s = 1 \<and> \<not> Student_is_deleted s) (students demo_db)) = 1 \<and>
   delete_class demo_db 1 = (Inl (ValueError (delete_class_message 1)), demo_db) \<and>
   delete_class_message 1 =
     ''Klasse kann nicht gel'' @ o_umlaut @ ''scht werden. Bitte erst die 1 Sch'' @ u_umlaut
       @ ''ler l'' @ o_umlaut @ ''schen.''"
proof -
  have g: "get_class demo_db 1 = Some (hd (classes demo_db))"
    by (simp add: get_class_def demo_db_def)
  have n: "1 = length (filter (\<lambda>s. Student_class_id s = 1 \<and> \<not> Student_is_deleted s)
                         (students demo_db))"
    by (simp add: demo_db_def)
  have m: "delete_class_message 1 =
     ''Klasse kann nicht gel'' @ o_umlaut @ ''scht werden. Bitte erst die 1 Sch'' @ u_umlaut
       @ ''ler l'' @ o_umlaut @ ''schen.''"
    by code_simp
  show ?thesis
    using delete_class_active_students [OF g n] g n m by simp
qed

text \<open>
  C2. When the class exists and none of its students is active, \<^verbatim>\<open>delete_class\<close> returns
  the class and leaves a database in which no student row of the class is left (every
  student that had the class id is gone, by row and by key), in which the listing and
  the search of the class return nothing, and in which the class is no longer found;
  no row is added. When no class has the id, it returns \<^verbatim>\<open>None\<close> without an error and
  without a change.
\<close>

theorem delete_class_no_active_students:
  "(get_class db cid = Some c \<and>
    filter (\<lambda>s. Student_class_id s = cid \<and> \<not> Student_is_deleted s) (students db) = [] \<longrightarrow>
      (\<exists>db'. delete_class db cid = (Inr (Some c), db') \<and>
         (\<forall>s \<in> set (students db). Student_class_id s = cid \<longrightarrow>
            s \<notin> set (students db') \<and> get_student db' (Student_id s) = None) \<and>
         filter (\<lambda>s. Student_class_id s = cid) (students db') = [] \<and>
         get_students_by_class db' cid skip limit = [] \<and>
         search_students_in_class db' cid q skip limit = [] \<and>
         get_class db' cid = None \<and>
         set (students db') \<subseteq> set (students db) \<and> set (classes db') \<subseteq> set (classes db))) \<and>
   (get_class db cid = None \<longrightarrow> delete_class db cid = (Inr None, db))"
proof (intro conjI impI)
  assume a: "get_class db cid = Some c \<and>
    filter (\<lambda>s. Student_class_id s = cid \<and> \<not> Student_is_deleted s) (students db) = []"
  define D where "D = {s \<in> set (students db). Student_class_id s = cid \<and> Student_is_deleted s}"
  define db' where "db' = db\<lparr>classes := filter (\<lambda>r. Class_id r \<noteq> cid) (classes db),
         students := filter (\<lambda>r. Student_id r \<notin> Student_id ` D) (students db)\<rparr>"
  have res: "delete_class db cid = (Inr (Some c), db')"
    using a delete_class_state[of db cid c] by (simp add: db'_def D_def)
  have inD: "s \<in> D" if "s \<in> set (students db)" "Student_class_id s = cid" for s
  proof -
    from a have "\<forall>x \<in> set (students db). \<not> (Student_class_id x = cid \<and> \<not> Student_is_deleted x)"
      by (simp add: filter_empty_conv)
    with that show ?thesis by (auto simp: D_def)
  qed
  have st: "students db' = filter (\<lambda>r. Student_id r \<notin> Student_id ` D) (students db)"
    by (simp add: db'_def)
  have gone: "s \<notin> set (students db') \<and> get_student db' (Student_id s) = None"
    if "s \<in> set (students db)" "Student_class_id s = cid" for s
  proof -
    have "Student_id s \<in> Student_id ` D" using inD[OF that] by blast
    then show ?thesis
      by (auto simp: st get_student_def find_None_iff)
  qed
  have none: "filter (\<lambda>s. Student_class_id s = cid) (students db') = []"
  proof -
    have "\<not> Student_class_id r = cid" if "r \<in> set (students db')" for r
    proof
      assume "Student_class_id r = cid"
      moreover from that have "r \<in> set (students db)" by (simp add: st)
      ultimately have "r \<notin> set (students db')" using gone by blast
      with that show False by simp
    qed
    then show ?thesis by (simp add: filter_empty_conv)
  qed
  have l: "get_students_by_class db' cid skip limit = []"
    using none by (simp add: get_students_by_class_def Let_def filter_empty_conv)
  have s: "search_students_in_class db' cid q skip limit = []"
    using none by (simp add: search_students_in_class_def Let_def filter_empty_conv)
  have g: "get_class db' cid = None"
    by (simp add: get_class_def db'_def find_filter_None)
  have sub: "set (students db') \<subseteq> set (students db) \<and> set (classes db') \<subseteq> set (classes db)"
    by (auto simp: db'_def)
  show "\<exists>db'. delete_class db cid = (Inr (Some c), db') \<and>
         (\<forall>s \<in> set (students db). Student_class_id s = cid \<longrightarrow>
            s \<notin> set (students db') \<and> get_student db' (Student_id s) = None) \<and>
         filter (\<lambda>s. Student_class_id s = cid) (students db') = [] \<and>
         get_students_by_class db' cid skip limit = [] \<and>
         search_students_in_class db' cid q skip limit = [] \<and>
         get_class db' cid = None \<and>
         set (students db') \<subseteq> set (students db) \<and> set (classes db') \<subseteq> set (classes db)"
    using res gone none l s g sub by blast
next
  assume "get_class db cid = None"
  then show "delete_class db cid = (Inr None, db)"
    by (simp add: delete_class_def)
qed

theorem delete_class_no_active_students_witness:
  "(get_class demo_db 2 = Some (classes demo_db ! 1) \<and>
    filter (\<lambda>s. Student_class_id s = 2 \<and> \<not> Student_is_deleted s) (students demo_db) = []) \<and>
   (\<exists>db'. delete_class demo_db 2 = (Inr (Some (classes demo_db ! 1)), db') \<and>
      filter (\<lambda>s. Student_class_id s = 2) (students db') = [] \<and>
      get_students_by_class db' 2 0 100 = [] \<and>
      search_students_in_class db' 2 ''an'' 0 100 = [] \<and>
      get_class db' 2 = None) \<and>
   map Student_id (students (snd (delete_class demo_db 2))) = [1, 2] \<and>
   get_class demo_db 9 = None \<and>
   delete_class demo_db 9 = (Inr None, demo_db)"
proof -
  have h: "get_class demo_db 2 = Some (classes demo_db ! 1) \<and>
    filter (\<lambda>s. Student_class_id s = 2 \<and> \<not> Student_is_deleted s) (students demo_db) = []"
    by (simp add: get_class_def demo_db_def)
  have n: "get_class demo_db 9 = None"
    by (simp add: get_class_def demo_db_def)
  note inst = delete_class_no_active_students
  from inst [where db = demo_db and cid = 2 and c = "classes demo_db ! 1" and skip = 0
      and limit = 100 and q = "''an''"] h
  have "\<exists>db'. delete_class demo_db 2 = (Inr (Some (classes demo_db ! 1)), db') \<and>
      filter (\<lambda>s. Student_class_id s = 2) (students db') = [] \<and>
      get_students_by_class db' 2 0 100 = [] \<and>
      search_students_in_class db' 2 ''an'' 0 100 = [] \<and>
      get_class db' 2 = None"
    by blast
  moreover from inst [where db = demo_db and cid = 9] n
  have "delete_class demo_db 9 = (Inr None, demo_db)"
    by blast
  moreover have "map Student_id (students (snd (delete_class demo_db 2))) = [1, 2]"
    by (simp add: delete_class_def get_class_def demo_db_def db_delete_student_def
        db_delete_class_def)
  ultimately show ?thesis using h n by blast
qed

subsection \<open>Characters and patterns\<close>


lemma characters_nonempty: "g \<in> set (characters xs) \<Longrightarrow> g \<noteq> []"
  by (induction xs arbitrary: g) (auto split: list.splits if_splits)






lemma like_match_unfold [simp]:
  "like_match [] s = (s = [])"
  "like_match (''%'' # ps) [] = like_match ps []"
  "like_match (''%'' # ps) (c # t) = (like_match ps (c # t) \<or> like_match (''%'' # ps) t)"
  "p \<noteq> ''%'' \<Longrightarrow> like_match (p # ps) [] = False"
  "p \<noteq> ''%'' \<Longrightarrow> like_match (p # ps) (c # t) = ((p = ''_'' \<or> p = c) \<and> like_match ps t)"
  by (simp_all add: like_match.simps)















text \<open>
  The wildcard \<^verbatim>\<open>_\<close> stands for one character, not for one byte: the one-character
  name made of an o with diaeresis matches \<^verbatim>\<open>%_%\<close> and does not match \<^verbatim>\<open>%__%\<close>.
\<close>

lemma underscore_is_one_character:
  "ilike o_umlaut ''%_%'' \<and> \<not> ilike o_umlaut ''%__%''"
  by code_simp

subsection \<open>Listing and searching the students of a class\<close>







subsection \<open>The interactions of a student\<close>

text \<open>
  Without a limit, and for every skill id but 0, the result holds exactly the student's
  interactions that satisfy all the supplied filters, each as often as the table holds
  it, in descending order of the timestamps when \<^verbatim>\<open>sort_desc\<close> is true and in ascending
  order otherwise. A limit \<open>l > 0\<close> keeps the first \<open>l\<close> of them.
\<close>

lemma get_student_interactions_unlimited:
  assumes "skill_id \<noteq> Some 0"
  shows "mset (get_student_interactions db sid None desc sd ed skill_id) =
           mset (filter (\<lambda>i. Interaction_student_id i = sid \<and>
                              (\<forall>d. sd = Some d \<longrightarrow> d \<le> Interaction_timestamp i) \<and>
                              (\<forall>d. ed = Some d \<longrightarrow> Interaction_timestamp i \<le> d) \<and>
                              (\<forall>k. skill_id = Some k \<longrightarrow> Interaction_skill_id i = k))
                   (interactions db))"
    and "sorted_wrt (\<lambda>a b. if desc then Interaction_timestamp b \<le> Interaction_timestamp a
                            else Interaction_timestamp a \<le> Interaction_timestamp b)
           (get_student_interactions db sid None desc sd ed skill_id)"
proof -
  show "mset (get_student_interactions db sid None desc sd ed skill_id) =
           mset (filter (\<lambda>i. Interaction_student_id i = sid \<and>
                              (\<forall>d. sd = Some d \<longrightarrow> d \<le> Interaction_timestamp i) \<and>
                              (\<forall>d. ed = Some d \<longrightarrow> Interaction_timestamp i \<le> d) \<and>
                              (\<forall>k. skill_id = Some k \<longrightarrow> Interaction_skill_id i = k))
                   (interactions db))"
    using assms
    by (cases sd; cases ed; cases skill_id)
       (auto simp: get_student_interactions_def Let_def intro!: filter_cong
             simp flip: mset_filter)
  have asc: "sorted_wrt (\<lambda>a b. Interaction_timestamp a \<le> Interaction_timestamp b)
               (sort_key Interaction_timestamp xs)" for xs
    using sorted_sort_key[of Interaction_timestamp xs] by (simp add: sorted_map)
  have dsc: "sorted_wrt (\<lambda>a b. Interaction_timestamp b \<le> Interaction_timestamp a)
               (sort_key (\<lambda>i. - Interaction_timestamp i) xs)" for xs
    using sorted_sort_key[of "\<lambda>i. - Interaction_timestamp i" xs] by (simp add: sorted_map)
  show "sorted_wrt (\<lambda>a b. if desc then Interaction_timestamp b \<le> Interaction_timestamp a
                            else Interaction_timestamp a \<le> Interaction_timestamp b)
           (get_student_interactions db sid None desc sd ed skill_id)"
    by (cases desc) (simp_all add: get_student_interactions_def Let_def asc dsc)
qed

lemma get_student_interactions_limited:
  "0 < l \<Longrightarrow> get_student_interactions db sid (Some l) desc sd ed skill_id =
     take l (get_student_interactions db sid None desc sd ed skill_id)"
  by (simp add: get_student_interactions_def Let_def)

text \<open>
  C8 fails on the code for the skill id 0. The first student of the small database has
  three interactions, with the skills 2, 1 and 1 when listed by descending timestamp,
  and none with the skill 0. Called with \<^verbatim>\<open>skill_id=0\<close> and no other filter, the
  function returns all three: \<^verbatim>\<open>if skill_id:\<close> is false on 0, and the filter is not
  applied. Called with \<^verbatim>\<open>skill_id=2\<close> it returns the one interaction with that skill.
\<close>

theorem get_student_interactions_skill_zero:
  "get_student_interactions demo_db 1 None True None None (Some 0) =
     [interactions demo_db ! 1, interactions demo_db ! 2, interactions demo_db ! 0] \<and>
   map Interaction_skill_id (get_student_interactions demo_db 1 None True None None (Some 0)) =
     [2, 1, 1] \<and>
   filter (\<lambda>i. Interaction_student_id i = 1 \<and> Interaction_skill_id i = 0) (interactions demo_db) = [] \<and>
   get_student_interactions demo_db 1 None True None None (Some 2) = [interactions demo_db ! 1]"
  by (simp add: get_student_interactions_def demo_db_def)

subsection \<open>Recording an interaction\<close>

lemma digit_char_code: "k < 10 \<Longrightarrow> (of_char (digit_char k) :: nat) = 48 + k"
  by (simp add: digit_char_def)

lemma str_nat_hd: "str_nat n \<noteq> [] \<and> (of_char (hd (str_nat n)) :: nat) \<in> {48..57}"
proof (induction n rule: str_nat.induct)
  case (1 n)
  show ?case
  proof (cases "n < 10")
    case True
    then show ?thesis by (subst (1 2) str_nat.simps) (simp add: digit_char_code)
  next
    case False
    then show ?thesis using 1 by (subst (1 2) str_nat.simps) simp
  qed
qed

lemma str_int_hd: "str_int i \<noteq> [] \<and> hd (str_int i) \<noteq> CHR ''m''"
proof (cases "i < 0")
  case True
  then show ?thesis by (simp add: str_int_def)
next
  case False
  have "(of_char (hd (str_nat (nat i))) :: nat) \<noteq> of_char CHR ''m''"
    using str_nat_hd[of "nat i"] by auto
  then have "hd (str_nat (nat i)) \<noteq> CHR ''m''" by auto
  then show ?thesis using False str_nat_hd[of "nat i"] by (simp add: str_int_def)
qed

lemma messages_differ: "problem_not_found_message a \<noteq> skill_mismatch_message b c"
proof
  assume "problem_not_found_message a = skill_mismatch_message b c"
  then have "drop 8 (problem_not_found_message a) = drop 8 (skill_mismatch_message b c)"
    by simp
  then have "hd (drop 8 (problem_not_found_message a)) = hd (drop 8 (skill_mismatch_message b c))"
    by simp
  then have "CHR ''m'' = hd (str_int b)"
    using str_int_hd[of b]
    by (simp add: problem_not_found_message_def skill_mismatch_message_def)
  then show False using str_int_hd[of b] by simp
qed

text \<open>
  C3. When \<^verbatim>\<open>problem_db_id\<close> resolves to no problem, \<^verbatim>\<open>create_interaction\<close> raises
  \<^verbatim>\<open>ValueError\<close> with the not-found message; when the problem is found and its
  \<^verbatim>\<open>skill_id\<close> differs from the supplied one, it raises \<^verbatim>\<open>ValueError\<close> with the
  mismatch message, and the two messages are never equal. Whenever it raises, the
  database is the one it was called on: no interaction row is inserted and no student
  is touched.
\<close>

theorem create_interaction_rejects:
  "(get_problem db (problem_db_id x) = None \<longrightarrow>
      create_interaction t db x sid =
        (Inl (ValueError (problem_not_found_message (problem_db_id x))), db)) \<and>
   (get_problem db (problem_db_id x) = Some p \<and> Problem_skill_id p \<noteq> skill_db_id x \<longrightarrow>
      create_interaction t db x sid =
        (Inl (ValueError (skill_mismatch_message (problem_db_id x) (skill_db_id x))), db)) \<and>
   (fst (create_interaction t db x sid) = Inl e \<longrightarrow>
      interactions (snd (create_interaction t db x sid)) = interactions db \<and>
      students (snd (create_interaction t db x sid)) = students db \<and>
      snd (create_interaction t db x sid) = db) \<and>
   problem_not_found_message (problem_db_id x) \<noteq>
     skill_mismatch_message (problem_db_id x) (skill_db_id x)"
  by (auto simp: create_interaction_def Let_def messages_differ split: option.splits)

theorem create_interaction_rejects_witness:
  "(get_problem demo_db 9 = None \<and>
    create_interaction 0 demo_db
      \<lparr>problem_db_id = 9, skill_db_id = 1, is_correct = True, timestamp = 42\<rparr> 1 =
      (Inl (ValueError ''Problem mit ID 9 nicht gefunden''), demo_db)) \<and>
   (get_problem demo_db 1 = Some (problems demo_db ! 0) \<and>
    Problem_skill_id (problems demo_db ! 0) \<noteq> 2 \<and>
    create_interaction 0 demo_db
      \<lparr>problem_db_id = 1, skill_db_id = 2, is_correct = True, timestamp = 42\<rparr> 1 =
      (Inl (ValueError (''Problem 1 geh'' @ o_umlaut @ ''rt nicht zu Skill 2'')), demo_db))"
proof -
  let ?x = "\<lparr>problem_db_id = 9, skill_db_id = 1, is_correct = True, timestamp = 42\<rparr>"
  let ?y = "\<lparr>problem_db_id = 1, skill_db_id = 2, is_correct = True, timestamp = 42\<rparr>"
  have n: "get_problem demo_db (problem_db_id ?x) = None"
    by (simp add: get_problem_def demo_db_def)
  have p: "get_problem demo_db (problem_db_id ?y) = Some (problems demo_db ! 0) \<and>
      Problem_skill_id (problems demo_db ! 0) \<noteq> skill_db_id ?y"
    by (simp add: get_problem_def demo_db_def)
  have m1: "problem_not_found_message 9 = ''Problem mit ID 9 nicht gefunden''"
    by code_simp
  have m2: "skill_mismatch_message 1 2 = ''Problem 1 geh'' @ o_umlaut @ ''rt nicht zu Skill 2''"
    by code_simp
  note inst = create_interaction_rejects
  from inst [where db = demo_db and x = ?x and t = 0 and sid = 1] n
  have "create_interaction 0 demo_db ?x 1 =
      (Inl (ValueError (problem_not_found_message (problem_db_id ?x))), demo_db)"
    by blast
  moreover from inst [where db = demo_db and x = ?y and t = 0 and sid = 1
      and p = "problems demo_db ! 0"] p
  have "create_interaction 0 demo_db ?y 1 =
      (Inl (ValueError (skill_mismatch_message (problem_db_id ?y) (skill_db_id ?y))), demo_db)"
    by blast
  ultimately show ?thesis using n p m1 m2 by simp
qed

lemma interactions_update:
  "interactions (snd (update_student_last_interaction_timestamp t db sid ts)) = interactions db"
  by (simp add: update_student_last_interaction_timestamp_def db_update_student_def Let_def
      split: option.splits)

lemma students_unchanged_insert:
  "get_student (db\<lparr>interactions := xs\<rparr>) sid = get_student db sid"
  by (simp add: get_student_def)

lemma update_timestamp_student:
  assumes "get_student db sid = Some s"
  shows "get_student (snd (update_student_last_interaction_timestamp t db sid (Some T))) sid =
         Some (s\<lparr>Student_last_interaction_update_timestamp := T\<rparr>)"
proof -
  let ?upd = "\<lambda>r. r\<lparr>Student_last_interaction_update_timestamp := T\<rparr>"
  have "get_student (db_update_student sid ?upd db) sid = Some (?upd s)"
    using get_student_update [OF assms, where f = ?upd] by simp
  then show ?thesis
    using assms get_student_id[OF assms]
    by (simp add: update_student_last_interaction_timestamp_def Let_def)
qed

text \<open>
  C4. When \<^verbatim>\<open>create_interaction\<close> succeeds, the interactions table is the old one with
  the returned row appended, and that row carries exactly the supplied student id,
  problem id, skill id, correctness and timestamp; a student with the given id has
  afterwards \<^verbatim>\<open>last_interaction_update_timestamp\<close> equal to the timestamp of the
  interaction; and the outcome is the same for every reading of the clock.
\<close>

theorem create_interaction_success:
  assumes "create_interaction t db x sid = (Inr i, db')"
  shows "interactions db' = interactions db @ [i] \<and>
         Interaction_student_id i = sid \<and>
         Interaction_problem_id i = problem_db_id x \<and>
         Interaction_skill_id i = skill_db_id x \<and>
         Interaction_is_correct i = is_correct x \<and>
         Interaction_timestamp i = timestamp x \<and>
         (\<forall>s. get_student db sid = Some s \<longrightarrow>
            get_student db' sid = Some (s\<lparr>Student_last_interaction_update_timestamp := timestamp x\<rparr>)) \<and>
         create_interaction t' db x sid = (Inr i, db')"
proof -
  obtain p where p: "get_problem db (problem_db_id x) = Some p"
      and k: "Problem_skill_id p = skill_db_id x"
    using assms by (auto simp: create_interaction_def Let_def split: option.splits if_splits)
  define row where "row =
     \<lparr>Interaction_id = next_interaction_id db, Interaction_student_id = sid,
      Interaction_problem_id = problem_db_id x, Interaction_skill_id = skill_db_id x,
      Interaction_is_correct = is_correct x, Interaction_timestamp = timestamp x\<rparr>"
  define db1 where "db1 = db\<lparr>interactions := interactions db @ [row]\<rparr>"
  have r: "create_interaction u db x sid =
        (Inr row, snd (update_student_last_interaction_timestamp u db1 sid (Some (timestamp x))))" for u
    using p k by (simp add: create_interaction_def Let_def row_def db1_def)
  have indep: "snd (update_student_last_interaction_timestamp u db1 sid (Some T)) =
        snd (update_student_last_interaction_timestamp u' db1 sid (Some T))" for u u' T
    by (simp add: update_student_last_interaction_timestamp_def Let_def split: option.splits)
  from r[of t] assms have i: "i = row"
    and d: "db' = snd (update_student_last_interaction_timestamp t db1 sid (Some (timestamp x)))"
    by simp_all
  have "interactions db' = interactions db @ [i]"
    by (simp add: d i interactions_update db1_def)
  moreover have "get_student db' sid = Some (s\<lparr>Student_last_interaction_update_timestamp := timestamp x\<rparr>)"
    if "get_student db sid = Some s" for s
  proof -
    from that have "get_student db1 sid = Some s"
      by (simp add: db1_def students_unchanged_insert)
    then show ?thesis unfolding d by (rule update_timestamp_student)
  qed
  moreover have "create_interaction t' db x sid = (Inr i, db')"
    using r[of t'] indep[of t' "timestamp x" t] by (simp add: i d)
  ultimately show ?thesis by (simp add: i row_def)
qed

theorem create_interaction_success_witness:
  "create_interaction 999 demo_db
     \<lparr>problem_db_id = 2, skill_db_id = 2, is_correct = True, timestamp = 42\<rparr> 1 =
     (Inr demo_interaction,
      snd (create_interaction 999 demo_db
             \<lparr>problem_db_id = 2, skill_db_id = 2, is_correct = True, timestamp = 42\<rparr> 1)) \<and>
   interactions (snd (create_interaction 999 demo_db
             \<lparr>problem_db_id = 2, skill_db_id = 2, is_correct = True, timestamp = 42\<rparr> 1)) =
     interactions demo_db @ [demo_interaction] \<and>
   get_student demo_db 1 = Some (students demo_db ! 0) \<and>
   Student_last_interaction_update_timestamp (students demo_db ! 0) = 10 \<and>
   get_student (snd (create_interaction 999 demo_db
             \<lparr>problem_db_id = 2, skill_db_id = 2, is_correct = True, timestamp = 42\<rparr> 1)) 1 =
     Some ((students demo_db ! 0)\<lparr>Student_last_interaction_update_timestamp := 42\<rparr>)"
proof -
  let ?x = "\<lparr>problem_db_id = 2, skill_db_id = 2, is_correct = True, timestamp = 42\<rparr>"
  let ?r = "create_interaction 999 demo_db ?x 1"
  have "fst ?r = Inr demo_interaction"
    by (simp add: create_interaction_def get_problem_def demo_db_def Let_def
        next_interaction_id_def demo_interaction_def)
  then have run: "?r = (Inr demo_interaction, snd ?r)"
    by (metis prod.collapse)
  have s: "get_student demo_db 1 = Some (students demo_db ! 0) \<and>
      Student_last_interaction_update_timestamp (students demo_db ! 0) = 10"
    by (simp add: get_student_def demo_db_def)
  from create_interaction_success [OF run] s run show ?thesis
    by simp
qed

text \<open>
  C5. \<^verbatim>\<open>create_interaction_from_csv\<close> never returns an error; and when the problem's
  original id does not resolve, or the skill's original id does not resolve, or the
  delegated \<^verbatim>\<open>create_interaction\<close> raises, it returns \<^verbatim>\<open>None\<close> and the database is the
  one it was called on, so no interaction is inserted.
\<close>

theorem create_interaction_from_csv_swallows:
  "(\<forall>e. fst (create_interaction_from_csv t db row sid) \<noteq> Inl e) \<and>
   (get_problem_by_original_id db (problem_original_id row) = None \<or>
    get_skill_by_original_id db (skill_original_id row) = None \<or>
    (\<exists>p k e. get_problem_by_original_id db (problem_original_id row) = Some p \<and>
       get_skill_by_original_id db (skill_original_id row) = Some k \<and>
       fst (create_interaction t db
              \<lparr>problem_db_id = Problem_id p, skill_db_id = Skill_id k,
               is_correct = csv_is_correct row, timestamp = csv_timestamp row\<rparr> sid) = Inl e)
    \<longrightarrow> create_interaction_from_csv t db row sid = (Inr None, db))"
proof (intro conjI allI impI)
  fix e
  show "fst (create_interaction_from_csv t db row sid) \<noteq> Inl e"
    by (auto simp: create_interaction_from_csv_def Let_def
        split: option.splits prod.splits sum.splits error.splits)
next
  assume a: "get_problem_by_original_id db (problem_original_id row) = None \<or>
    get_skill_by_original_id db (skill_original_id row) = None \<or>
    (\<exists>p k e. get_problem_by_original_id db (problem_original_id row) = Some p \<and>
       get_skill_by_original_id db (skill_original_id row) = Some k \<and>
       fst (create_interaction t db
              \<lparr>problem_db_id = Problem_id p, skill_db_id = Skill_id k,
               is_correct = csv_is_correct row, timestamp = csv_timestamp row\<rparr> sid) = Inl e)"
  have same: "fst (create_interaction t db y sid) = Inl e \<Longrightarrow>
        create_interaction t db y sid = (Inl e, db)" for y e
    by (auto simp: create_interaction_def Let_def split: option.splits if_splits)
  from a show "create_interaction_from_csv t db row sid = (Inr None, db)"
    by (auto simp: create_interaction_from_csv_def Let_def dest!: same
        split: option.splits prod.splits sum.splits error.splits)
qed


theorem create_interaction_from_csv_swallows_witness:
  "(get_problem_by_original_id demo_db ''P9'' = None \<and>
    create_interaction_from_csv 0 demo_db
      \<lparr>problem_original_id = ''P9'', skill_original_id = ''S10'', csv_is_correct = True,
       csv_timestamp = 42\<rparr> 1 = (Inr None, demo_db)) \<and>
   (get_skill_by_original_id demo_db ''S99'' = None \<and>
    create_interaction_from_csv 0 demo_db
      \<lparr>problem_original_id = ''P1'', skill_original_id = ''S99'', csv_is_correct = True,
       csv_timestamp = 42\<rparr> 1 = (Inr None, demo_db)) \<and>
   (fst (create_interaction 0 demo_db
      \<lparr>problem_db_id = 1, skill_db_id = 2, is_correct = True, timestamp = 42\<rparr> 1) =
      Inl (ValueError (skill_mismatch_message 1 2)) \<and>
    create_interaction_from_csv 0 demo_db
      \<lparr>problem_original_id = ''P1'', skill_original_id = ''S20'', csv_is_correct = True,
       csv_timestamp = 42\<rparr> 1 = (Inr None, demo_db))"
proof -
  let ?a = "\<lparr>problem_original_id = ''P9'', skill_original_id = ''S10'', csv_is_correct = True,
       csv_timestamp = 42\<rparr>"
  let ?b = "\<lparr>problem_original_id = ''P1'', skill_original_id = ''S99'', csv_is_correct = True,
       csv_timestamp = 42\<rparr>"
  let ?c = "\<lparr>problem_original_id = ''P1'', skill_original_id = ''S20'', csv_is_correct = True,
       csv_timestamp = 42\<rparr>"
  have a: "get_problem_by_original_id demo_db (problem_original_id ?a) = None"
    by (simp add: get_problem_by_original_id_def demo_db_def)
  have b: "get_skill_by_original_id demo_db (skill_original_id ?b) = None"
    by (simp add: get_skill_by_original_id_def demo_db_def)
  have c1: "get_problem_by_original_id demo_db (problem_original_id ?c) = Some (problems demo_db ! 0)"
    by (simp add: get_problem_by_original_id_def demo_db_def)
  have c2: "get_skill_by_original_id demo_db (skill_original_id ?c) = Some (skills demo_db ! 1)"
    by (simp add: get_skill_by_original_id_def demo_db_def)
  have ids: "Problem_id (problems demo_db ! 0) = 1 \<and> Skill_id (skills demo_db ! 1) = 2"
    by (simp add: demo_db_def)
  have c3: "fst (create_interaction 0 demo_db
      \<lparr>problem_db_id = 1, skill_db_id = 2, is_correct = True, timestamp = 42\<rparr> 1) =
      Inl (ValueError (skill_mismatch_message 1 2))"
    by (simp add: create_interaction_def get_problem_def demo_db_def)
  have c: "\<exists>p k e. get_problem_by_original_id demo_db (problem_original_id ?c) = Some p \<and>
       get_skill_by_original_id demo_db (skill_original_id ?c) = Some k \<and>
       fst (create_interaction 0 demo_db
              \<lparr>problem_db_id = Problem_id p, skill_db_id = Skill_id k,
               is_correct = csv_is_correct ?c, timestamp = csv_timestamp ?c\<rparr> 1) = Inl e"
    using c1 c2 c3 ids by simp
  note inst = create_interaction_from_csv_swallows
  from inst [where db = demo_db and row = ?a and t = 0 and sid = 1] a
  have ra: "create_interaction_from_csv 0 demo_db ?a 1 = (Inr None, demo_db)"
    by blast
  from inst [where db = demo_db and row = ?b and t = 0 and sid = 1] b
  have rb: "create_interaction_from_csv 0 demo_db ?b 1 = (Inr None, demo_db)"
    by blast
  from inst [where db = demo_db and row = ?c and t = 0 and sid = 1] c
  have rc: "create_interaction_from_csv 0 demo_db ?c 1 = (Inr None, demo_db)"
    by blast
  show ?thesis using a b c3 ra rb rc by simp
qed

subsection \<open>Float arithmetic\<close>

text \<open>
  \<^verbatim>\<open>floor_log2\<close> is the binary exponent of a positive rational, so \<^verbatim>\<open>to_double\<close> returns
  an integer significand of at most 53 bits at that exponent, no further from its
  argument than the fraction \<open>2\<^sup>-\<^sup>5\<^sup>3\<close> of it.
\<close>

lemma pow2_powi: "pow2 e = 2 powi e"
  by (simp add: pow2_def power_int_def field_simps)

lemma pow2_pos: "0 < pow2 e"
  by (simp add: pow2_powi)

lemma round_half_even_error: "\<bar>of_int (round_half_even q) - q\<bar> \<le> 1 / 2"
proof -
  define f where "f = \<lfloor>q\<rfloor>"
  define r where "r = q - of_int f"
  have r: "0 \<le> r" "r < 1" unfolding r_def f_def by linarith+
  have q: "q = of_int f + r" by (simp add: r_def)
  have v: "round_half_even q =
      (if r < 1 / 2 then f else if 1 / 2 < r then f + 1 else if even f then f else f + 1)"
    by (simp add: round_half_even_def Let_def f_def r_def)
  have "(round_half_even q = f \<and> r \<le> 1 / 2) \<or> (round_half_even q = f + 1 \<and> 1 / 2 \<le> r)"
  proof (cases "r < 1 / 2")
    case True
    then show ?thesis by (simp add: v)
  next
    case False
    then show ?thesis by (cases "1 / 2 < r") (simp_all add: v)
  qed
  then consider "round_half_even q = f" "r \<le> 1 / 2" | "round_half_even q = f + 1" "1 / 2 \<le> r"
    by blast
  then show ?thesis
  proof cases
    case 1
    have "of_int (round_half_even q) - q = - r" by (simp add: 1 r_def)
    then show ?thesis using r 1 by simp
  next
    case 2
    have "of_int (round_half_even q) - q = 1 - r" by (simp add: 2 r_def)
    then show ?thesis using r 2 by simp
  qed
qed

lemma floor_log2_le:
  assumes "0 < q"
  shows "pow2 (floor_log2 q) \<le> q"
proof -
  obtain a b where ab: "quotient_of q = (a, b)" by (cases "quotient_of q")
  then have b: "0 < b" by (rule quotient_of_denom_pos)
  have q: "q = of_int a / of_int b" using ab by (rule quotient_of_div)
  with assms b have a: "0 < a" by (simp add: zero_less_divide_iff)
  define e where "e = bitlen a - bitlen b"
  show ?thesis
  proof (cases "pow2 e \<le> q")
    case True
    then show ?thesis by (simp add: floor_log2_def ab e_def)
  next
    case False
    have la: "(2::int) ^ nat (bitlen a - 1) \<le> a" using bitlen_bounds[OF a] by simp
    have lb: "b < (2::int) ^ nat (bitlen b)" using bitlen_bounds[OF b] by simp
    have ba: "1 \<le> bitlen a" using a by (simp add: bitlen_alt_def)
    have bb: "0 \<le> bitlen b" by (rule bitlen_nonneg)
    have "(2::rat) powi (bitlen a - 1) = of_int (2 ^ nat (bitlen a - 1))"
      using ba by (simp add: power_int_def)
    also have "\<dots> \<le> of_int a" using la by (simp only: of_int_le_iff)
    finally have 1: "(2::rat) powi (bitlen a - 1) \<le> of_int a" .
    have "(of_int b :: rat) \<le> of_int (2 ^ nat (bitlen b))" using lb by (simp only: of_int_le_iff less_imp_le)
    also have "\<dots> = 2 powi (bitlen b)" using bb by (simp add: power_int_def)
    finally have 2: "(of_int b :: rat) \<le> 2 powi (bitlen b)" .
    have "pow2 (e - 1) = 2 powi (bitlen a - 1) / 2 powi (bitlen b)"
      by (simp add: pow2_powi e_def power_int_diff)
    also have "\<dots> \<le> of_int a / of_int b"
      using 1 2 b a by (intro frac_le) simp_all
    finally have "pow2 (e - 1) \<le> q" by (simp add: q)
    then show ?thesis using False by (simp add: floor_log2_def ab e_def)
  qed
qed

lemma floor_log2_less:
  assumes "0 < q"
  shows "q < pow2 (floor_log2 q + 1)"
proof -
  obtain a b where ab: "quotient_of q = (a, b)" by (cases "quotient_of q")
  then have b: "0 < b" by (rule quotient_of_denom_pos)
  have q: "q = of_int a / of_int b" using ab by (rule quotient_of_div)
  with assms b have a: "0 < a" by (simp add: zero_less_divide_iff)
  define e where "e = bitlen a - bitlen b"
  show ?thesis
  proof (cases "pow2 e \<le> q")
    case False
    then show ?thesis by (simp add: floor_log2_def ab e_def)
  next
    case True
    have la: "a < (2::int) ^ nat (bitlen a)" using bitlen_bounds[OF a] by simp
    have lb: "(2::int) ^ nat (bitlen b - 1) \<le> b" using bitlen_bounds[OF b] by simp
    have ba: "0 \<le> bitlen a" by (rule bitlen_nonneg)
    have bb: "1 \<le> bitlen b" using b by (simp add: bitlen_alt_def)
    have "(of_int a :: rat) < of_int (2 ^ nat (bitlen a))" using la by (simp only: of_int_less_iff)
    also have "\<dots> = 2 powi (bitlen a)" using ba by (simp add: power_int_def)
    finally have 1: "(of_int a :: rat) < 2 powi (bitlen a)" .
    have "(2::rat) powi (bitlen b - 1) = of_int (2 ^ nat (bitlen b - 1))"
      using bb by (simp add: power_int_def)
    also have "\<dots> \<le> of_int b" using lb by (simp only: of_int_le_iff)
    finally have 2: "(2::rat) powi (bitlen b - 1) \<le> of_int b" .
    have "of_int a / of_int b < 2 powi (bitlen a) / (2::rat) powi (bitlen b - 1)"
      using 1 2 a b by (intro frac_less) simp_all
    also have "\<dots> = pow2 (e + 1)"
    proof -
      have "e + 1 = bitlen a - (bitlen b - 1)" by (simp add: e_def)
      then show ?thesis by (simp only: pow2_powi) (simp add: power_int_diff)
    qed
    finally have "q < pow2 (e + 1)" by (simp add: q)
    then show ?thesis using True by (simp add: floor_log2_def ab e_def)
  qed
qed

lemma to_double_error: "\<bar>to_double q - q\<bar> \<le> \<bar>q\<bar> / 2 ^ 53"
proof (cases "q = 0")
  case True
  then show ?thesis by (simp add: to_double_def)
next
  case False
  define ulp where "ulp = pow2 (floor_log2 \<bar>q\<bar> - 52)"
  have pos: "0 < ulp" by (simp add: ulp_def pow2_pos)
  have ulp: "ulp = pow2 (floor_log2 \<bar>q\<bar>) / 2 ^ 52"
    by (simp add: ulp_def pow2_powi power_int_diff)
  have "pow2 (floor_log2 \<bar>q\<bar>) \<le> \<bar>q\<bar>"
    using False by (intro floor_log2_le) simp
  then have small: "ulp \<le> \<bar>q\<bar> / 2 ^ 52"
    unfolding ulp by (simp add: divide_right_mono)
  have "to_double q - q = (of_int (round_half_even (q / ulp)) - q / ulp) * ulp"
    using False pos by (simp add: to_double_def Let_def ulp_def [symmetric] field_simps)
  then have "\<bar>to_double q - q\<bar> = \<bar>of_int (round_half_even (q / ulp)) - q / ulp\<bar> * ulp"
    using pos by (simp add: abs_mult)
  also have "\<dots> \<le> (1 / 2) * ulp"
    using round_half_even_error[of "q / ulp"] pos by (intro mult_right_mono) simp_all
  also have "\<dots> \<le> (1 / 2) * (\<bar>q\<bar> / 2 ^ 52)"
    using small by simp
  also have "\<dots> = \<bar>q\<bar> / 2 ^ 53" by simp
  finally show ?thesis .
qed

lemma to_double_significand:
  assumes "q \<noteq> 0"
  shows "\<exists>m. to_double q = of_int m * pow2 (floor_log2 \<bar>q\<bar> - 52) \<and> \<bar>m\<bar> \<le> 2 ^ 53"
proof -
  define ulp where "ulp = pow2 (floor_log2 \<bar>q\<bar> - 52)"
  define m where "m = round_half_even (q / ulp)"
  have pos: "0 < ulp" by (simp add: ulp_def pow2_pos)
  have "pow2 (floor_log2 \<bar>q\<bar> + 1) = ulp * 2 ^ 53"
    by (simp add: ulp_def pow2_powi power_int_diff power_int_add)
  moreover have "\<bar>q\<bar> < pow2 (floor_log2 \<bar>q\<bar> + 1)"
    using assms by (intro floor_log2_less) simp
  ultimately have "\<bar>q\<bar> / ulp < 2 ^ 53"
    using pos by (simp add: pos_divide_less_eq mult.commute)
  then have yb: "\<bar>q / ulp\<bar> < 2 ^ 53"
    using pos by (simp add: abs_divide)
  have d: "\<bar>of_int m - q / ulp\<bar> \<le> 1 / 2"
    unfolding m_def by (rule round_half_even_error)
  define y where "y = q / ulp"
  have "\<bar>(of_int m :: rat)\<bar> \<le> \<bar>of_int m - y\<bar> + \<bar>y\<bar>"
    by linarith
  with yb d have "\<bar>(of_int m :: rat)\<bar> < 2 ^ 53 + 1"
    unfolding y_def by linarith
  then have "(of_int \<bar>m\<bar> :: rat) < of_int (2 ^ 53 + 1)"
    by simp
  then have "\<bar>m\<bar> < 2 ^ 53 + 1"
    by (simp only: of_int_less_iff)
  then have "\<bar>m\<bar> \<le> 2 ^ 53" by simp
  moreover have "to_double q = of_int m * ulp"
    using assms by (simp add: to_double_def Let_def ulp_def m_def)
  ultimately show ?thesis unfolding ulp_def by blast
qed

lemma accuracy_error:
  assumes "0 \<le> c" "c \<le> t" "0 < t"
  shows "\<bar>to_double (of_int (round_half_even (float_mul (int_truediv c t) 100 * 10 ^ 2)) / 10 ^ 2)
           - of_int c / of_int t * 100\<bar> \<le> 1 / 200 + 1 / 2 ^ 44"
proof -
  define x0 :: rat where "x0 = of_int c / of_int t"
  define x1 where "x1 = to_double x0"
  define x2 where "x2 = to_double (x1 * 100)"
  define r where "r = (of_int (round_half_even (x2 * 100)) :: rat) / 100"
  define x3 where "x3 = to_double r"
  have x0: "0 \<le> x0" "x0 \<le> 1"
    using assms by (simp_all add: x0_def)
  have e1: "\<bar>x1 - x0\<bar> \<le> 1 / 2 ^ 53"
  proof -
    have "\<bar>x1 - x0\<bar> \<le> \<bar>x0\<bar> / 2 ^ 53" unfolding x1_def by (rule to_double_error)
    also have "\<dots> \<le> 1 / 2 ^ 53" using x0 by (simp add: divide_right_mono)
    finally show ?thesis .
  qed
  then have b1: "\<bar>x1\<bar> \<le> 101 / 100" using x0 by (simp add: abs_if split: if_splits)
  have e2: "\<bar>x2 - x1 * 100\<bar> \<le> 101 / 2 ^ 53"
  proof -
    have "\<bar>x2 - x1 * 100\<bar> \<le> \<bar>x1 * 100\<bar> / 2 ^ 53" unfolding x2_def by (rule to_double_error)
    also have "\<dots> \<le> 101 / 2 ^ 53" using b1 by (simp add: abs_mult divide_right_mono)
    finally show ?thesis .
  qed
  have b2: "\<bar>x2\<bar> \<le> 102" using e2 b1 by (simp add: abs_if split: if_splits)
  have e3: "\<bar>r - x2\<bar> \<le> 1 / 200"
  proof -
    have "r - x2 = (of_int (round_half_even (x2 * 100)) - x2 * 100) / 100"
      by (simp add: r_def field_simps)
    then have "\<bar>r - x2\<bar> = \<bar>of_int (round_half_even (x2 * 100)) - x2 * 100\<bar> / 100"
      by (simp only: abs_divide)
    also have "\<dots> \<le> (1 / 2) / 100"
      using round_half_even_error[of "x2 * 100"] by (intro divide_right_mono) simp_all
    finally show ?thesis by simp
  qed
  have b3: "\<bar>r\<bar> \<le> 103" using e3 b2 by (simp add: abs_if split: if_splits)
  have e4: "\<bar>x3 - r\<bar> \<le> 103 / 2 ^ 53"
  proof -
    have "\<bar>x3 - r\<bar> \<le> \<bar>r\<bar> / 2 ^ 53" unfolding x3_def by (rule to_double_error)
    also have "\<dots> \<le> 103 / 2 ^ 53" using b3 by (simp add: divide_right_mono)
    finally show ?thesis .
  qed
  have "\<bar>x3 - x0 * 100\<bar> \<le> \<bar>x3 - r\<bar> + \<bar>r - x2\<bar> + \<bar>x2 - x1 * 100\<bar> + \<bar>x1 - x0\<bar> * 100"
    by (simp add: abs_if split: if_splits)
  also have "\<dots> \<le> 103 / 2 ^ 53 + 1 / 200 + 101 / 2 ^ 53 + (1 / 2 ^ 53) * 100"
    using e1 e2 e3 e4 by (intro add_mono mult_right_mono) simp_all
  also have "\<dots> \<le> 1 / 200 + 1 / 2 ^ 44" by simp
  finally have "\<bar>x3 - x0 * 100\<bar> \<le> 1 / 200 + 1 / 2 ^ 44" .
  then show ?thesis
    by (simp add: x3_def r_def x2_def x1_def x0_def float_mul_def int_truediv_def)
qed

lemma rounded_error:
  assumes "0 \<le> c" "c \<le> t" "0 < t"
  shows "\<bar>(of_int (round_half_even (float_mul (int_truediv c t) 100 * 10 ^ 2)) :: rat) / 10 ^ 2
           - of_int c / of_int t * 100\<bar> \<le> 1 / 200 + 1 / 2 ^ 45"
proof -
  define x0 :: rat where "x0 = of_int c / of_int t"
  define x1 where "x1 = to_double x0"
  define x2 where "x2 = to_double (x1 * 100)"
  define r where "r = (of_int (round_half_even (x2 * 100)) :: rat) / 100"
  have x0: "0 \<le> x0" "x0 \<le> 1"
    using assms by (simp_all add: x0_def)
  have e1: "\<bar>x1 - x0\<bar> \<le> 1 / 2 ^ 53"
  proof -
    have "\<bar>x1 - x0\<bar> \<le> \<bar>x0\<bar> / 2 ^ 53" unfolding x1_def by (rule to_double_error)
    also have "\<dots> \<le> 1 / 2 ^ 53" using x0 by (simp add: divide_right_mono)
    finally show ?thesis .
  qed
  then have b1: "\<bar>x1\<bar> \<le> 101 / 100" using x0 by (simp add: abs_if split: if_splits)
  have e2: "\<bar>x2 - x1 * 100\<bar> \<le> 101 / 2 ^ 53"
  proof -
    have "\<bar>x2 - x1 * 100\<bar> \<le> \<bar>x1 * 100\<bar> / 2 ^ 53" unfolding x2_def by (rule to_double_error)
    also have "\<dots> \<le> 101 / 2 ^ 53" using b1 by (simp add: abs_mult divide_right_mono)
    finally show ?thesis .
  qed
  have b2: "\<bar>x2\<bar> \<le> 102" using e2 b1 by (simp add: abs_if split: if_splits)
  have e3: "\<bar>r - x2\<bar> \<le> 1 / 200"
  proof -
    have "r - x2 = (of_int (round_half_even (x2 * 100)) - x2 * 100) / 100"
      by (simp add: r_def field_simps)
    then have "\<bar>r - x2\<bar> = \<bar>of_int (round_half_even (x2 * 100)) - x2 * 100\<bar> / 100"
      by (simp only: abs_divide)
    also have "\<dots> \<le> (1 / 2) / 100"
      using round_half_even_error[of "x2 * 100"] by (intro divide_right_mono) simp_all
    finally show ?thesis by simp
  qed
  have "\<bar>r - x0 * 100\<bar> \<le> \<bar>r - x2\<bar> + \<bar>x2 - x1 * 100\<bar> + \<bar>x1 - x0\<bar> * 100"
    by (simp add: abs_if split: if_splits)
  also have "\<dots> \<le> 1 / 200 + 101 / 2 ^ 53 + (1 / 2 ^ 53) * 100"
    using e1 e2 e3 by (intro add_mono mult_right_mono) simp_all
  also have "\<dots> \<le> 1 / 200 + 1 / 2 ^ 45" by simp
  finally have "\<bar>r - x0 * 100\<bar> \<le> 1 / 200 + 1 / 2 ^ 45" .
  then show ?thesis
    by (simp add: r_def x2_def x1_def x0_def float_mul_def int_truediv_def)
qed

text \<open>
  The functions of the float operations compute what the relations of the float
  operations describe: \<^verbatim>\<open>round_half_even\<close> the nearest integer, \<^verbatim>\<open>to_double\<close> the nearest
  binary64 number, and each of them is the only one.
\<close>

lemma round_half_even_nearest: "nearest_integer_even q (round_half_even q)"
proof -
  define f where "f = \<lfloor>q\<rfloor>"
  define r where "r = q - of_int f"
  have r: "0 \<le> r" "r < 1" unfolding r_def f_def by linarith+
  have v: "round_half_even q =
      (if r < 1 / 2 then f else if 1 / 2 < r then f + 1 else if even f then f else f + 1)"
    by (simp add: round_half_even_def Let_def f_def r_def)
  have d: "of_int f - q = - r" "of_int (f + 1) - q = 1 - r"
    by (simp_all add: r_def)
  show ?thesis
  proof (cases "r < 1 / 2")
    case True
    then have "round_half_even q = f" by (simp add: v)
    then show ?thesis using True r d by (simp add: nearest_integer_even_def)
  next
    case False
    show ?thesis
    proof (cases "1 / 2 < r")
      case True
      then have "round_half_even q = f + 1" using False by (simp add: v)
      then show ?thesis using True r d unfolding nearest_integer_even_def by simp
    next
      case half: False
      with False have h: "r = 1 / 2" by simp
      show ?thesis
      proof (cases "even f")
        case True
        then have "round_half_even q = f" using h by (simp add: v)
        then show ?thesis using True h d by (simp add: nearest_integer_even_def)
      next
        case odd: False
        then have "round_half_even q = f + 1" using h by (simp add: v)
        then show ?thesis using odd h d unfolding nearest_integer_even_def by simp
      qed
    qed
  qed
qed

lemma nearest_integer_even_unique:
  assumes "nearest_integer_even q k" "nearest_integer_even q k'"
  shows "k = k'"
proof -
  have less: False if a: "nearest_integer_even q i" and b: "nearest_integer_even q j" and l: "i < j" for i j
  proof -
    have ij: "(of_int i :: rat) + 1 \<le> of_int j"
      using l by (metis of_int_1 of_int_add of_int_le_iff zless_imp_add1_zle)
    have bi: "\<bar>of_int i - q\<bar> \<le> 1 / 2" and bj: "\<bar>of_int j - q\<bar> \<le> 1 / 2"
      using a b by (simp_all add: nearest_integer_even_def)
    from ij bi bj have e: "(of_int j :: rat) = of_int i + 1"
      and ti: "\<bar>of_int i - q\<bar> = 1 / 2" and tj: "\<bar>of_int j - q\<bar> = 1 / 2"
      by linarith+
    from e have "j = i + 1" by (metis of_int_1 of_int_add of_int_eq_iff)
    moreover have "even i" "even j"
      using a b ti tj by (simp_all add: nearest_integer_even_def)
    ultimately show False by simp
  qed
  show ?thesis
    using less [of k k'] less [of k' k] assms by (cases k k' rule: linorder_cases) auto
qed

lemma exponent_unique:
  assumes "(2::rat) powi e \<le> x" "x < 2 powi (e + 1)" "(2::rat) powi e' \<le> x" "x < 2 powi (e' + 1)"
  shows "e = e'"
proof -
  have False if a: "(2::rat) powi i \<le> x" "x < 2 powi (j + 1)" and l: "j < i" for i j
  proof -
    from l have "j + 1 \<le> i" by simp
    then have "(2::rat) powi (j + 1) \<le> 2 powi i"
      by (intro power_int_increasing) simp_all
    with a show False by simp
  qed
  from this [of e e'] this [of e' e] assms show ?thesis
    by (cases e e' rule: linorder_cases) auto
qed

lemma to_double_nearest: "binary64_nearest q (to_double q)"
proof (cases "q = 0")
  case True
  then show ?thesis by (simp add: binary64_nearest_def to_double_def)
next
  case False
  define e where "e = floor_log2 \<bar>q\<bar>"
  have pos: "0 < \<bar>q\<bar>" using False by simp
  have lo: "2 powi e \<le> \<bar>q\<bar>"
    using floor_log2_le [OF pos] by (simp add: e_def pow2_powi)
  have hi: "\<bar>q\<bar> < 2 powi (e + 1)"
    using floor_log2_less [OF pos] by (simp add: e_def pow2_powi)
  have "to_double q = of_int (round_half_even (q / 2 powi (e - 52))) * 2 powi (e - 52)"
    using False by (simp add: to_double_def Let_def e_def pow2_powi)
  with lo hi round_half_even_nearest [of "q / 2 powi (e - 52)"] show ?thesis
    unfolding binary64_nearest_def by blast
qed

lemma binary64_nearest_unique:
  assumes "binary64_nearest q d" "binary64_nearest q d'"
  shows "d = d'"
proof (cases "q = 0")
  case True
  have "\<not> (2::rat) powi e \<le> 0" for e
    by (simp add: not_le)
  with True assms show ?thesis by (auto simp: binary64_nearest_def)
next
  case False
  from assms(1) False obtain e m where a: "2 powi e \<le> \<bar>q\<bar>" "\<bar>q\<bar> < 2 powi (e + 1)"
    "nearest_integer_even (q / 2 powi (e - 52)) m" "d = of_int m * 2 powi (e - 52)"
    unfolding binary64_nearest_def by blast
  from assms(2) False obtain e' m' where b: "2 powi e' \<le> \<bar>q\<bar>" "\<bar>q\<bar> < 2 powi (e' + 1)"
    "nearest_integer_even (q / 2 powi (e' - 52)) m'" "d' = of_int m' * 2 powi (e' - 52)"
    unfolding binary64_nearest_def by blast
  have e: "e = e'" using a(1,2) b(1,2) by (rule exponent_unique)
  then have "m = m'" using a(3) b(3) by (auto intro: nearest_integer_even_unique)
  with e a(4) b(4) show ?thesis by simp
qed

lemma binary64_nearest_iff: "binary64_nearest q d \<longleftrightarrow> d = to_double q"
  using to_double_nearest binary64_nearest_unique by blast

lemma decimal_rounded_iff:
  "decimal_rounded x n r \<longleftrightarrow> r = of_int (round_half_even (x * 10 ^ n)) / 10 ^ n"
  unfolding decimal_rounded_def
  using round_half_even_nearest nearest_integer_even_unique by blast

subsection \<open>The statistics of a student\<close>

text \<open>Seven of ten: the quotient, the product and the rounding give the float 70 exactly.\<close>

lemma seven_of_ten: "py_round (PyFloat (float_mul (int_truediv 7 10) 100)) 2 = PyFloat 70"
  by code_simp

text \<open>
  One of three and two of three: the product is the float nearest to \<open>33.33333333333333\<close>
  and \<open>66.66666666666667\<close>, the rounding makes of it the float nearest to \<open>33.33\<close> and
  \<open>66.67\<close>, which is another float.
\<close>

lemma one_of_three:
  "py_round (PyFloat (float_mul (int_truediv 1 3) 100)) 2 =
     PyFloat (2345390243441541 / 70368744177664)"
  by code_simp

lemma two_of_three:
  "py_round (PyFloat (float_mul (int_truediv 2 3) 100)) 2 =
     PyFloat (4691484174324859 / 70368744177664)"
  by code_simp

lemma thirds_unrounded:
  "float_mul (int_truediv 1 3) 100 = 2345624805922133 / 70368744177664"
  "float_mul (int_truediv 2 3) 100 = 2345624805922133 / 35184372088832"
  by code_simp+

lemma thirds_nearest:
  "binary64_nearest (3333 / 100) (2345390243441541 / 70368744177664)"
  "binary64_nearest (6667 / 100) (4691484174324859 / 70368744177664)"
  unfolding binary64_nearest_iff by code_simp+

text \<open>
  C6. For an id without a student \<^verbatim>\<open>get_student_statistics\<close> returns the empty
  dictionary. Otherwise, with \<open>n_total\<close> the number of interactions of the student and
  \<open>n_correct\<close> the number of the correct ones, \<^verbatim>\<open>incorrect_interactions\<close> is
  \<open>n_total - n_correct\<close>; \<^verbatim>\<open>accuracy\<close> is \<^verbatim>\<open>round(correct / total * 100, 2)\<close> in float
  arithmetic when \<open>n_total > 0\<close>, a float no further than \<open>0.005 + 2\<^sup>-\<^sup>4\<^sup>4\<close> from the
  exact percentage, and the integer 0 when \<open>n_total = 0\<close>; \<^verbatim>\<open>activity_status\<close> is
  \<^verbatim>\<open>active\<close> when the student has an interaction and \<^verbatim>\<open>no_activity\<close> otherwise. With
  ten interactions, seven of them correct, the accuracy is the float 70.0 and
  \<^verbatim>\<open>incorrect_interactions\<close> is 3.

  The rounding to two decimals, stated by the relations of the float operations: when
  \<open>n_total > 0\<close>, \<^verbatim>\<open>accuracy\<close> is the float \<open>x\<close> if and only if \<open>x\<close> is the binary64 number
  nearest to the two-decimal rounding of the float product by 100 of the float quotient
  \<open>n_correct / n_total\<close>. So \<^verbatim>\<open>accuracy\<close> is the float nearest to a number \<open>k / 100\<close> of
  at most two decimals, which is no further than \<open>0.005 + 2\<^sup>-\<^sup>4\<^sup>5\<close> from the exact
  percentage: with one of three correct it is the float nearest to \<open>33.33\<close>, with two of
  three the float nearest to \<open>66.67\<close>, and neither is the unrounded product.
\<close>

theorem get_student_statistics_values:
  assumes "n_total = int (length (filter (\<lambda>i. Interaction_student_id i = sid) (interactions db)))"
    and "n_correct = int (length (filter (\<lambda>i. Interaction_student_id i = sid \<and>
                                               Interaction_is_correct i) (interactions db)))"
  shows "(get_student db sid = None \<longrightarrow> get_student_statistics db sid = []) \<and>
         (get_student db sid \<noteq> None \<longrightarrow>
            map_of (get_student_statistics db sid) ''total_interactions'' = Some (Num (PyInt n_total)) \<and>
            map_of (get_student_statistics db sid) ''correct_interactions'' =
              Some (Num (PyInt n_correct)) \<and>
            map_of (get_student_statistics db sid) ''incorrect_interactions'' =
              Some (Num (PyInt (n_total - n_correct))) \<and>
            map_of (get_student_statistics db sid) ''accuracy'' =
              Some (Num (if 0 < n_total
                         then py_round (PyFloat (float_mul (int_truediv n_correct n_total) 100)) 2
                         else PyInt 0)) \<and>
            map_of (get_student_statistics db sid) ''activity_status'' =
              Some (Str (if 0 < n_total then ''active'' else ''no_activity'')) \<and>
            (0 < n_total \<longrightarrow>
               (\<exists>x. map_of (get_student_statistics db sid) ''accuracy'' = Some (Num (PyFloat x)) \<and>
                    \<bar>x - of_int n_correct / of_int n_total * 100\<bar> \<le> 1 / 200 + 1 / 2 ^ 44)) \<and>
            (n_total = 10 \<and> n_correct = 7 \<longrightarrow>
               map_of (get_student_statistics db sid) ''accuracy'' = Some (Num (PyFloat 70)) \<and>
               map_of (get_student_statistics db sid) ''incorrect_interactions'' =
                 Some (Num (PyInt 3))) \<and>
            (0 < n_total \<longrightarrow>
               (\<forall>x. map_of (get_student_statistics db sid) ''accuracy'' = Some (Num (PyFloat x)) \<longleftrightarrow>
                    (\<exists>y p r. binary64_nearest (of_int n_correct / of_int n_total) y \<and>
                             binary64_nearest (y * 100) p \<and>
                             decimal_rounded p 2 r \<and>
                             binary64_nearest r x))) \<and>
            (0 < n_total \<longrightarrow>
               (\<exists>k x. map_of (get_student_statistics db sid) ''accuracy'' = Some (Num (PyFloat x)) \<and>
                      binary64_nearest (of_int k / 100) x \<and>
                      \<bar>(of_int k :: rat) / 100 - of_int n_correct / of_int n_total * 100\<bar>
                        \<le> 1 / 200 + 1 / 2 ^ 45)) \<and>
            (n_total = 3 \<and> n_correct = 1 \<longrightarrow>
               (\<exists>x. map_of (get_student_statistics db sid) ''accuracy'' = Some (Num (PyFloat x)) \<and>
                    binary64_nearest (3333 / 100) x \<and>
                    x \<noteq> float_mul (int_truediv n_correct n_total) 100)) \<and>
            (n_total = 3 \<and> n_correct = 2 \<longrightarrow>
               (\<exists>x. map_of (get_student_statistics db sid) ''accuracy'' = Some (Num (PyFloat x)) \<and>
                    binary64_nearest (6667 / 100) x \<and>
                    x \<noteq> float_mul (int_truediv n_correct n_total) 100)))"
proof (intro conjI impI)
  assume "get_student db sid = None"
  then show "get_student_statistics db sid = []"
    by (simp add: get_student_statistics_def)
next
  assume ex: "get_student db sid \<noteq> None"
  then obtain s where s: "get_student db sid = Some s" by blast
  let ?rows = "filter (\<lambda>i. Interaction_student_id i = sid) (interactions db)"
  have act: "(case map Interaction_timestamp ?rows of [] \<Rightarrow> None | t # ts \<Rightarrow> Some (fold max ts t)) = None
      \<longleftrightarrow> \<not> 0 < n_total"
    unfolding assms by (cases ?rows) simp_all
  show t: "map_of (get_student_statistics db sid) ''total_interactions'' = Some (Num (PyInt n_total))"
    using s by (simp add: get_student_statistics_def Let_def assms)
  show c: "map_of (get_student_statistics db sid) ''correct_interactions'' = Some (Num (PyInt n_correct))"
    using s by (simp add: get_student_statistics_def Let_def assms)
  show i: "map_of (get_student_statistics db sid) ''incorrect_interactions'' =
      Some (Num (PyInt (n_total - n_correct)))"
    using s by (simp add: get_student_statistics_def Let_def assms)
  show a: "map_of (get_student_statistics db sid) ''accuracy'' =
      Some (Num (if 0 < n_total
                 then py_round (PyFloat (float_mul (int_truediv n_correct n_total) 100)) 2
                 else PyInt 0))"
  proof -
    have "map_of (get_student_statistics db sid) ''accuracy'' =
        Some (Num (py_round (if 0 < n_total
                             then PyFloat (float_mul (int_truediv n_correct n_total) 100)
                             else PyInt 0) 2))"
      using s by (simp add: get_student_statistics_def Let_def assms del: py_round.simps)
    then show ?thesis by (simp del: py_round.simps) simp
  qed
  show "map_of (get_student_statistics db sid) ''activity_status'' =
      Some (Str (if 0 < n_total then ''active'' else ''no_activity''))"
  proof (cases "0 < n_total")
    case True
    with act obtain t where "(case map Interaction_timestamp ?rows of [] \<Rightarrow> None
        | t # ts \<Rightarrow> Some (fold max ts t)) = Some t"
      by fastforce
    then show ?thesis
      using s True by (simp add: get_student_statistics_def Let_def)
  next
    case False
    with act have "(case map Interaction_timestamp ?rows of [] \<Rightarrow> None
        | t # ts \<Rightarrow> Some (fold max ts t)) = None"
      by simp
    then show ?thesis
      using s False by (simp add: get_student_statistics_def Let_def)
  qed
  {
    assume pos: "0 < n_total"
    have le: "n_correct \<le> n_total"
      using length_filter_le [of Interaction_is_correct ?rows] unfolding assms by simp
    have nn: "0 \<le> n_correct" unfolding assms by simp
    show "\<exists>x. map_of (get_student_statistics db sid) ''accuracy'' = Some (Num (PyFloat x)) \<and>
        \<bar>x - of_int n_correct / of_int n_total * 100\<bar> \<le> 1 / 200 + 1 / 2 ^ 44"
      unfolding a using pos accuracy_error [OF nn le pos] by simp
  }
  {
    assume tc: "n_total = 10 \<and> n_correct = 7"
    show "map_of (get_student_statistics db sid) ''accuracy'' = Some (Num (PyFloat 70))"
      unfolding a using tc seven_of_ten by simp
    show "map_of (get_student_statistics db sid) ''incorrect_interactions'' = Some (Num (PyInt 3))"
      unfolding i using tc by simp
  }
  {
    assume pos: "0 < n_total"
    let ?k = "round_half_even (float_mul (int_truediv n_correct n_total) 100 * 10 ^ 2)"
    have le: "n_correct \<le> n_total"
      using length_filter_le [of Interaction_is_correct ?rows] unfolding assms by simp
    have nn: "0 \<le> n_correct" unfolding assms by simp
    have v: "map_of (get_student_statistics db sid) ''accuracy'' =
        Some (Num (PyFloat (to_double (of_int ?k / 10 ^ 2))))"
      unfolding a using pos by simp
    show "\<forall>x. map_of (get_student_statistics db sid) ''accuracy'' = Some (Num (PyFloat x)) \<longleftrightarrow>
        (\<exists>y p r. binary64_nearest (of_int n_correct / of_int n_total) y \<and>
                 binary64_nearest (y * 100) p \<and>
                 decimal_rounded p 2 r \<and>
                 binary64_nearest r x)"
    proof -
      have "(\<exists>y p r. binary64_nearest (of_int n_correct / of_int n_total) y \<and>
                 binary64_nearest (y * 100) p \<and>
                 decimal_rounded p 2 r \<and>
                 binary64_nearest r x) \<longleftrightarrow> x = to_double (of_int ?k / 10 ^ 2)" for x
        unfolding binary64_nearest_iff decimal_rounded_iff float_mul_def int_truediv_def
        by blast
      then show ?thesis unfolding v by auto
    qed
    have "binary64_nearest (of_int ?k / 100) (to_double (of_int ?k / 10 ^ 2))"
      unfolding binary64_nearest_iff by simp
    moreover have "\<bar>(of_int ?k :: rat) / 100 - of_int n_correct / of_int n_total * 100\<bar>
        \<le> 1 / 200 + 1 / 2 ^ 45"
      using rounded_error [OF nn le pos] by simp
    ultimately show "\<exists>k x. map_of (get_student_statistics db sid) ''accuracy'' =
          Some (Num (PyFloat x)) \<and>
        binary64_nearest (of_int k / 100) x \<and>
        \<bar>(of_int k :: rat) / 100 - of_int n_correct / of_int n_total * 100\<bar> \<le> 1 / 200 + 1 / 2 ^ 45"
      using v by blast
  }
  {
    assume tc: "n_total = 3 \<and> n_correct = 1"
    have "map_of (get_student_statistics db sid) ''accuracy'' =
        Some (Num (PyFloat (2345390243441541 / 70368744177664)))"
      unfolding a using tc one_of_three by simp
    moreover have "(2345390243441541 / 70368744177664 :: rat) \<noteq>
        float_mul (int_truediv n_correct n_total) 100"
      using tc by (simp add: thirds_unrounded)
    ultimately show "\<exists>x. map_of (get_student_statistics db sid) ''accuracy'' =
          Some (Num (PyFloat x)) \<and>
        binary64_nearest (3333 / 100) x \<and> x \<noteq> float_mul (int_truediv n_correct n_total) 100"
      using thirds_nearest(1) by blast
  }
  {
    assume tc: "n_total = 3 \<and> n_correct = 2"
    have "map_of (get_student_statistics db sid) ''accuracy'' =
        Some (Num (PyFloat (4691484174324859 / 70368744177664)))"
      unfolding a using tc two_of_three by simp
    moreover have "(4691484174324859 / 70368744177664 :: rat) \<noteq>
        float_mul (int_truediv n_correct n_total) 100"
      using tc by (simp add: thirds_unrounded)
    ultimately show "\<exists>x. map_of (get_student_statistics db sid) ''accuracy'' =
          Some (Num (PyFloat x)) \<and>
        binary64_nearest (6667 / 100) x \<and> x \<noteq> float_mul (int_truediv n_correct n_total) 100"
      using thirds_nearest(2) by blast
  }
qed

theorem get_student_statistics_values_witness:
  "(get_student stats_db 9 = None \<and> get_student_statistics stats_db 9 = []) \<and>
   (get_student stats_db 1 \<noteq> None \<and>
    int (length (filter (\<lambda>i. Interaction_student_id i = 1) (interactions stats_db))) = 10 \<and>
    int (length (filter (\<lambda>i. Interaction_student_id i = 1 \<and> Interaction_is_correct i)
                   (interactions stats_db))) = 7 \<and>
    map_of (get_student_statistics stats_db 1) ''accuracy'' = Some (Num (PyFloat 70)) \<and>
    map_of (get_student_statistics stats_db 1) ''incorrect_interactions'' = Some (Num (PyInt 3)) \<and>
    map_of (get_student_statistics stats_db 1) ''activity_status'' = Some (Str ''active'')) \<and>
   (get_student stats_db 2 \<noteq> None \<and>
    filter (\<lambda>i. Interaction_student_id i = 2) (interactions stats_db) = [] \<and>
    map_of (get_student_statistics stats_db 2) ''accuracy'' = Some (Num (PyInt 0)) \<and>
    map_of (get_student_statistics stats_db 2) ''incorrect_interactions'' = Some (Num (PyInt 0)) \<and>
    map_of (get_student_statistics stats_db 2) ''activity_status'' = Some (Str ''no_activity'')) \<and>
   (get_student demo_db 1 \<noteq> None \<and>
    int (length (filter (\<lambda>i. Interaction_student_id i = 1) (interactions demo_db))) = 3 \<and>
    int (length (filter (\<lambda>i. Interaction_student_id i = 1 \<and> Interaction_is_correct i)
                   (interactions demo_db))) = 2 \<and>
    map_of (get_student_statistics demo_db 1) ''accuracy'' =
      Some (Num (PyFloat (4691484174324859 / 70368744177664))) \<and>
    binary64_nearest (6667 / 100) (4691484174324859 / 70368744177664) \<and>
    float_mul (int_truediv 2 3) 100 = 2345624805922133 / 35184372088832 \<and>
    (\<exists>y p r. binary64_nearest (2 / 3) y \<and> binary64_nearest (y * 100) p \<and>
             decimal_rounded p 2 r \<and>
             binary64_nearest r (4691484174324859 / 70368744177664)))"
proof -
  have n: "get_student stats_db 9 = None"
    by (simp add: get_student_def stats_db_def demo_db_def)
  have e1: "get_student stats_db 1 \<noteq> None" and e2: "get_student stats_db 2 \<noteq> None"
    and e3: "get_student demo_db 1 \<noteq> None"
    by (simp_all add: get_student_def stats_db_def demo_db_def)
  have t1: "int (length (filter (\<lambda>i. Interaction_student_id i = 1) (interactions stats_db))) = 10"
    by (simp add: stats_db_def answer_def)
  have c1: "int (length (filter (\<lambda>i. Interaction_student_id i = 1 \<and> Interaction_is_correct i)
                   (interactions stats_db))) = 7"
    by (simp add: stats_db_def answer_def)
  have t2: "filter (\<lambda>i. Interaction_student_id i = 2) (interactions stats_db) = []"
    by (simp add: stats_db_def answer_def)
  have c2: "filter (\<lambda>i. Interaction_student_id i = 2 \<and> Interaction_is_correct i)
      (interactions stats_db) = []"
    by (simp add: stats_db_def answer_def)
  have t3: "int (length (filter (\<lambda>i. Interaction_student_id i = 1) (interactions demo_db))) = 3"
    by (simp add: demo_db_def)
  have c3: "int (length (filter (\<lambda>i. Interaction_student_id i = 1 \<and> Interaction_is_correct i)
                   (interactions demo_db))) = 2"
    by (simp add: demo_db_def)
  note inst = get_student_statistics_values [OF refl refl]
  note found = conjunct2 [THEN mp]
  note incorrect = conjunct2 [THEN conjunct2, THEN conjunct1]
  note accuracy = conjunct2 [THEN conjunct2, THEN conjunct2, THEN conjunct1]
  note activity = conjunct2 [THEN conjunct2, THEN conjunct2, THEN conjunct2, THEN conjunct1]
  note seven = conjunct2 [THEN conjunct2, THEN conjunct2, THEN conjunct2, THEN conjunct2, THEN conjunct2, THEN conjunct1]
  note rounding = conjunct2 [THEN conjunct2, THEN conjunct2, THEN conjunct2, THEN conjunct2, THEN conjunct2, THEN conjunct2, THEN conjunct1]
  note two_thirds = conjunct2 [THEN conjunct2, THEN conjunct2, THEN conjunct2, THEN conjunct2, THEN conjunct2, THEN conjunct2, THEN conjunct2, THEN conjunct2, THEN conjunct2]
  from inst [where db = stats_db and sid = 9, THEN conjunct1] n
  have r9: "get_student_statistics stats_db 9 = []"
    by (rule mp)
  note s1 = inst [where db = stats_db and sid = 1, unfolded t1 c1, THEN found, OF e1]
  from s1 [THEN seven]
  have a1: "map_of (get_student_statistics stats_db 1) ''accuracy'' = Some (Num (PyFloat 70)) \<and>
    map_of (get_student_statistics stats_db 1) ''incorrect_interactions'' = Some (Num (PyInt 3))"
    by simp
  from s1 [THEN activity]
  have v1: "map_of (get_student_statistics stats_db 1) ''activity_status'' = Some (Str ''active'')"
    by simp
  note s2 = inst [where db = stats_db and sid = 2, unfolded t2 c2, THEN found, OF e2]
  from s2 [THEN accuracy]
  have a2: "map_of (get_student_statistics stats_db 2) ''accuracy'' = Some (Num (PyInt 0))"
    by simp
  from s2 [THEN incorrect]
  have i2: "map_of (get_student_statistics stats_db 2) ''incorrect_interactions'' =
      Some (Num (PyInt 0))"
    by simp
  from s2 [THEN activity]
  have v2: "map_of (get_student_statistics stats_db 2) ''activity_status'' =
      Some (Str ''no_activity'')"
    by simp
  note s3 = inst [where db = demo_db and sid = 1, unfolded t3 c3, THEN found, OF e3]
  from s3 [THEN accuracy]
  have a3: "map_of (get_student_statistics demo_db 1) ''accuracy'' =
      Some (Num (PyFloat (4691484174324859 / 70368744177664)))"
    by (simp del: py_round.simps add: two_of_three)
  from s3 [THEN two_thirds]
  obtain x where x: "map_of (get_student_statistics demo_db 1) ''accuracy'' = Some (Num (PyFloat x))"
    and nx: "binary64_nearest (6667 / 100) x"
    by auto
  from a3 have "x = 4691484174324859 / 70368744177664"
    unfolding x by (simp only: option.inject pyval.inject pynum.inject)
  with nx have b3: "binary64_nearest (6667 / 100) (4691484174324859 / 70368744177664)"
    by (simp only:)
  have u3: "float_mul (int_truediv 2 3) 100 = 2345624805922133 / 35184372088832"
    by code_simp
  have "0 < (3::int)" by simp
  with s3 [THEN rounding]
  have "\<forall>x. map_of (get_student_statistics demo_db 1) ''accuracy'' = Some (Num (PyFloat x)) \<longleftrightarrow>
      (\<exists>y p r. binary64_nearest (of_int 2 / of_int 3) y \<and> binary64_nearest (y * 100) p \<and>
               decimal_rounded p 2 r \<and> binary64_nearest r x)"
    by (rule mp)
  then have "map_of (get_student_statistics demo_db 1) ''accuracy'' =
        Some (Num (PyFloat (4691484174324859 / 70368744177664))) \<longleftrightarrow>
      (\<exists>y p r. binary64_nearest (of_int 2 / of_int 3) y \<and> binary64_nearest (y * 100) p \<and>
               decimal_rounded p 2 r \<and>
               binary64_nearest r (4691484174324859 / 70368744177664))"
    by (rule spec)
  from this a3
  have "\<exists>y p r. binary64_nearest (of_int 2 / of_int 3) y \<and> binary64_nearest (y * 100) p \<and>
      decimal_rounded p 2 r \<and> binary64_nearest r (4691484174324859 / 70368744177664)"
    by (rule iffD1)
  then have d3: "\<exists>y p r. binary64_nearest (2 / 3) y \<and> binary64_nearest (y * 100) p \<and>
      decimal_rounded p 2 r \<and> binary64_nearest r (4691484174324859 / 70368744177664)"
    by simp
  show ?thesis
    using n e1 e2 e3 t1 c1 t2 t3 c3 r9 a1 v1 a2 i2 v2 a3 b3 u3 d3 by (simp only: simp_thms)
qed

subsection \<open>The dashboard of a teacher\<close>

text \<open>The count joined to a class is the number of its active students, 0 included.\<close>

lemma student_count_lookup:
  "(case map_of (student_count_subquery db) cid of Some n \<Rightarrow> int n | None \<Rightarrow> 0) =
     int (length (filter (\<lambda>s. Student_class_id s = cid \<and> \<not> Student_is_deleted s) (students db)))"
proof -
  let ?active = "filter (\<lambda>s. Student_is_deleted s = False) (students db)"
  let ?count = "\<lambda>c. length (filter (\<lambda>s. Student_class_id s = c) ?active)"
  have cnt: "?count cid =
      length (filter (\<lambda>s. Student_class_id s = cid \<and> \<not> Student_is_deleted s) (students db))"
    by (simp add: conj_commute)
  have look: "map_of (student_count_subquery db) cid =
      (if cid \<in> set (map Student_class_id ?active) then Some (?count cid) else None)"
    unfolding student_count_subquery_def Let_def
    by (simp add: map_of_map_restrict restrict_map_def)
  show ?thesis
  proof (cases "cid \<in> set (map Student_class_id ?active)")
    case True
    then show ?thesis using look cnt by simp
  next
    case False
    then have "filter (\<lambda>s. Student_class_id s = cid) ?active = []"
      by (auto simp: filter_empty_conv)
    then have "?count cid = 0" by simp
    then show ?thesis using False look cnt by simp
  qed
qed

text \<open>
  C9. \<^verbatim>\<open>get_classes_for_dashboard\<close> returns one dictionary for each of the first
  \<^verbatim>\<open>limit\<close> classes of the teacher's classes ordered by \<^verbatim>\<open>created_at\<close>, newest first,
  so at most \<^verbatim>\<open>limit\<close> of them; each holds the id and the name of the class and, as
  \<^verbatim>\<open>student_count\<close>, the number of students of the class that are not soft-deleted. A
  class of the teacher without an active student is not dropped: when the teacher has
  no more than \<^verbatim>\<open>limit\<close> classes, its dictionary is in the result, with the count 0.
\<close>

theorem get_classes_for_dashboard_rows:
  assumes "owned = filter (\<lambda>c. Class_teacher_id c = tid) (classes db)"
    and "newest = sort_key (\<lambda>c. - Class_created_at c) owned"
  shows "get_classes_for_dashboard db tid limit =
           map (\<lambda>c. [(''id'', Num (PyInt (Class_id c))),
                      (''name'', Str (Class_name c)),
                      (''student_count'', Num (PyInt (int (length
                          (filter (\<lambda>s. Student_class_id s = Class_id c \<and> \<not> Student_is_deleted s)
                             (students db))))))])
             (take limit newest) \<and>
         length (get_classes_for_dashboard db tid limit) \<le> limit \<and>
         mset newest = mset owned \<and>
         sorted_wrt (\<lambda>a b. Class_created_at b \<le> Class_created_at a) newest \<and>
         (\<forall>c \<in> set owned.
            length owned \<le> limit \<and>
            filter (\<lambda>s. Student_class_id s = Class_id c \<and> \<not> Student_is_deleted s) (students db) = []
            \<longrightarrow> [(''id'', Num (PyInt (Class_id c))), (''name'', Str (Class_name c)),
                  (''student_count'', Num (PyInt 0))]
                \<in> set (get_classes_for_dashboard db tid limit))"
proof -
  let ?row = "\<lambda>c. [(''id'', Num (PyInt (Class_id c))),
                      (''name'', Str (Class_name c)),
                      (''student_count'', Num (PyInt (int (length
                          (filter (\<lambda>s. Student_class_id s = Class_id c \<and> \<not> Student_is_deleted s)
                             (students db))))))]"
  have rows: "get_classes_for_dashboard db tid limit = map ?row (take limit newest)"
    unfolding get_classes_for_dashboard_def Let_def assms
    by (simp add: student_count_lookup)
  have len: "length (get_classes_for_dashboard db tid limit) \<le> limit"
    unfolding rows by simp
  have perm: "mset newest = mset owned"
    unfolding assms(2) by simp
  have ord: "sorted_wrt (\<lambda>a b. Class_created_at b \<le> Class_created_at a) newest"
    using sorted_sort_key[of "\<lambda>c. - Class_created_at c" owned]
    unfolding assms(2) by (simp add: sorted_map)
  have zero: "[(''id'', Num (PyInt (Class_id c))), (''name'', Str (Class_name c)),
                  (''student_count'', Num (PyInt 0))]
                \<in> set (get_classes_for_dashboard db tid limit)"
    if c: "c \<in> set owned" and l: "length owned \<le> limit"
      and e: "filter (\<lambda>s. Student_class_id s = Class_id c \<and> \<not> Student_is_deleted s) (students db) = []"
    for c
  proof -
    have "length newest \<le> limit" using l perm by (metis size_mset)
    then have "take limit newest = newest" by simp
    moreover have "c \<in> set newest" using c perm by (metis set_mset_mset)
    ultimately have "?row c \<in> set (get_classes_for_dashboard db tid limit)"
      unfolding rows by simp
    then show ?thesis using e by simp
  qed
  show ?thesis using rows len perm ord zero by blast
qed

theorem get_classes_for_dashboard_rows_witness:
  "get_classes_for_dashboard demo_db 1 5 =
     [[(''id'', Num (PyInt 2)), (''name'', Str ''8b''), (''student_count'', Num (PyInt 0))],
      [(''id'', Num (PyInt 3)), (''name'', Str ''9c''), (''student_count'', Num (PyInt 0))],
      [(''id'', Num (PyInt 1)), (''name'', Str ''7a''), (''student_count'', Num (PyInt 1))]] \<and>
   get_classes_for_dashboard demo_db 1 2 =
     [[(''id'', Num (PyInt 2)), (''name'', Str ''8b''), (''student_count'', Num (PyInt 0))],
      [(''id'', Num (PyInt 3)), (''name'', Str ''9c''), (''student_count'', Num (PyInt 0))]] \<and>
   length (get_classes_for_dashboard demo_db 1 2) \<le> 2 \<and>
   (classes demo_db ! 2 \<in> set (filter (\<lambda>c. Class_teacher_id c = 1) (classes demo_db)) \<and>
    filter (\<lambda>s. Student_class_id s = 3 \<and> \<not> Student_is_deleted s) (students demo_db) = [] \<and>
    [(''id'', Num (PyInt 3)), (''name'', Str ''9c''), (''student_count'', Num (PyInt 0))]
      \<in> set (get_classes_for_dashboard demo_db 1 5))"
proof -
  let ?owned = "filter (\<lambda>c. Class_teacher_id c = 1) (classes demo_db)"
  let ?newest = "sort_key (\<lambda>c. - Class_created_at c) ?owned"
  have n: "?newest = [classes demo_db ! 1, classes demo_db ! 2, classes demo_db ! 0]"
    by (simp add: demo_db_def)
  note inst = get_classes_for_dashboard_rows [OF refl refl, where db = demo_db and tid = 1]
  have a: "get_classes_for_dashboard demo_db 1 5 =
     [[(''id'', Num (PyInt 2)), (''name'', Str ''8b''), (''student_count'', Num (PyInt 0))],
      [(''id'', Num (PyInt 3)), (''name'', Str ''9c''), (''student_count'', Num (PyInt 0))],
      [(''id'', Num (PyInt 1)), (''name'', Str ''7a''), (''student_count'', Num (PyInt 1))]]"
    using inst [where limit = 5] unfolding n by (simp add: demo_db_def)
  have b: "get_classes_for_dashboard demo_db 1 2 =
     [[(''id'', Num (PyInt 2)), (''name'', Str ''8b''), (''student_count'', Num (PyInt 0))],
      [(''id'', Num (PyInt 3)), (''name'', Str ''9c''), (''student_count'', Num (PyInt 0))]]"
    using inst [where limit = 2] unfolding n by (simp add: demo_db_def)
  have c: "length (get_classes_for_dashboard demo_db 1 2) \<le> 2"
    using inst [where limit = 2] by blast
  have h: "classes demo_db ! 2 \<in> set ?owned \<and> length ?owned \<le> 5 \<and>
      filter (\<lambda>s. Student_class_id s = Class_id (classes demo_db ! 2) \<and> \<not> Student_is_deleted s)
        (students demo_db) = []"
    by (simp add: demo_db_def)
  have i: "Class_id (classes demo_db ! 2) = 3 \<and> Class_name (classes demo_db ! 2) = ''9c''"
    by (simp add: demo_db_def)
  from inst [where limit = 5] h
  have "[(''id'', Num (PyInt (Class_id (classes demo_db ! 2)))),
         (''name'', Str (Class_name (classes demo_db ! 2))),
         (''student_count'', Num (PyInt 0))]
          \<in> set (get_classes_for_dashboard demo_db 1 5)"
    by blast
  then have d: "[(''id'', Num (PyInt 3)), (''name'', Str ''9c''), (''student_count'', Num (PyInt 0))]
      \<in> set (get_classes_for_dashboard demo_db 1 5)"
    unfolding i [THEN conjunct1] i [THEN conjunct2] .
  show ?thesis using a b c d h i by simp
qed

subsection \<open>Soft deletion\<close>

text \<open>
  C10. \<^verbatim>\<open>delete_student\<close> on a student that is already soft-deleted returns the student
  with \<^verbatim>\<open>is_deleted\<close> still true and \<^verbatim>\<open>deleted_at\<close> set to the clock of this call, and
  that is the row stored afterwards; in particular a second call with clock \<open>t2\<close> after a
  first one with clock \<open>t1\<close> stores \<open>t2\<close>. On an id without a student it returns
  \<^verbatim>\<open>None\<close> and leaves the database as it is.
\<close>

theorem delete_student_again:
  "(get_student db sid = Some s \<and> Student_is_deleted s \<longrightarrow>
      (\<exists>s' db'. delete_student t2 db sid = (Some s', db') \<and>
         s' = s\<lparr>Student_deleted_at := Some t2\<rparr> \<and>
         Student_is_deleted s' \<and> Student_deleted_at s' = Some t2 \<and>
         get_student db' sid = Some s')) \<and>
   (get_student db sid = Some s \<longrightarrow>
      (\<exists>s1 s2. get_student (snd (delete_student t1 db sid)) sid = Some s1 \<and>
         Student_is_deleted s1 \<and> Student_deleted_at s1 = Some t1 \<and>
         get_student (snd (delete_student t2 (snd (delete_student t1 db sid)) sid)) sid = Some s2 \<and>
         Student_is_deleted s2 \<and> Student_deleted_at s2 = Some t2)) \<and>
   (get_student db sid = None \<longrightarrow> delete_student t2 db sid = (None, db))"
proof (intro conjI impI)
  assume a: "get_student db sid = Some s \<and> Student_is_deleted s"
  let ?upd = "\<lambda>r. r\<lparr>Student_is_deleted := True, Student_deleted_at := Some t2\<rparr>"
  have id: "Student_id s = sid" using a get_student_id by blast
  have "get_student (db_update_student sid ?upd db) sid = Some (?upd s)"
    using a by (intro get_student_update) simp_all
  moreover have "?upd s = s\<lparr>Student_deleted_at := Some t2\<rparr>" using a by simp
  ultimately show "\<exists>s' db'. delete_student t2 db sid = (Some s', db') \<and>
         s' = s\<lparr>Student_deleted_at := Some t2\<rparr> \<and>
         Student_is_deleted s' \<and> Student_deleted_at s' = Some t2 \<and>
         get_student db' sid = Some s'"
    using a id by (simp add: delete_student_def Let_def)
next
  assume a: "get_student db sid = Some s"
  let ?u1 = "\<lambda>r. r\<lparr>Student_is_deleted := True, Student_deleted_at := Some t1\<rparr>"
  let ?u2 = "\<lambda>r. r\<lparr>Student_is_deleted := True, Student_deleted_at := Some t2\<rparr>"
  let ?db1 = "db_update_student sid ?u1 db"
  have id: "Student_id s = sid" using a get_student_id by blast
  have d1: "snd (delete_student t1 db sid) = ?db1"
    using a id by (simp add: delete_student_def Let_def)
  have g1: "get_student ?db1 sid = Some (?u1 s)"
    using a by (intro get_student_update) simp_all
  have d2: "snd (delete_student t2 ?db1 sid) = db_update_student sid ?u2 ?db1"
    using g1 id by (simp add: delete_student_def Let_def)
  have g2: "get_student (db_update_student sid ?u2 ?db1) sid = Some (?u2 (?u1 s))"
    using get_student_update [OF g1, where f = "?u2"] by simp
  show "\<exists>s1 s2. get_student (snd (delete_student t1 db sid)) sid = Some s1 \<and>
         Student_is_deleted s1 \<and> Student_deleted_at s1 = Some t1 \<and>
         get_student (snd (delete_student t2 (snd (delete_student t1 db sid)) sid)) sid = Some s2 \<and>
         Student_is_deleted s2 \<and> Student_deleted_at s2 = Some t2"
    unfolding d1 d2 g1 g2 by simp
next
  assume "get_student db sid = None"
  then show "delete_student t2 db sid = (None, db)"
    by (simp add: delete_student_def)
qed

theorem delete_student_again_witness:
  "(get_student demo_db 2 = Some (students demo_db ! 1) \<and>
    Student_is_deleted (students demo_db ! 1) \<and>
    Student_deleted_at (students demo_db ! 1) = Some 20) \<and>
   (\<exists>db'. delete_student 77 demo_db 2 =
            (Some ((students demo_db ! 1)\<lparr>Student_deleted_at := Some 77\<rparr>), db') \<and>
      get_student db' 2 = Some ((students demo_db ! 1)\<lparr>Student_deleted_at := Some 77\<rparr>)) \<and>
   get_student demo_db 9 = None \<and>
   delete_student 77 demo_db 9 = (None, demo_db)"
proof -
  have h: "get_student demo_db 2 = Some (students demo_db ! 1) \<and>
    Student_is_deleted (students demo_db ! 1) \<and>
    Student_deleted_at (students demo_db ! 1) = Some 20"
    by (simp add: get_student_def demo_db_def)
  have n: "get_student demo_db 9 = None"
    by (simp add: get_student_def demo_db_def)
  note inst = delete_student_again
  from inst [where db = demo_db and sid = 2 and s = "students demo_db ! 1" and ?t2.0 = 77] h
  have "\<exists>db'. delete_student 77 demo_db 2 =
            (Some ((students demo_db ! 1)\<lparr>Student_deleted_at := Some 77\<rparr>), db') \<and>
      get_student db' 2 = Some ((students demo_db ! 1)\<lparr>Student_deleted_at := Some 77\<rparr>)"
    by blast
  moreover from inst [where db = demo_db and sid = 9 and ?t2.0 = 77] n
  have "delete_student 77 demo_db 9 = (None, demo_db)"
    by blast
  ultimately show ?thesis using h n by blast
qed

end
